theory Spec2Isabelle
  imports Complex_Main "HOL-Library.Word" "HOL-Library.Finite_Map"
begin

section \<open>Values of the host language\<close>

text \<open>
  The application is TypeScript. Three things of its value model matter to the store and
  the sync engine and are kept explicit here:
  \<^item> an optional field is \<open>undefined\<close> (never assigned), \<open>null\<close> (read back from a
    NULL column) or a value; \<open>sqliteDb.updateTask\<close> skips the first and writes the
    other two;
  \<^item> conditions such as \<open>if (serverId)\<close> test truthiness: the empty string and the
    number 0 count as absent;
  \<^item> text that goes through \<open>JSON.stringify\<close> / \<open>JSON.parse\<close> is a sequence of
    UTF-16 code units.
  Opaque text (titles, identifiers, messages) is a \<open>string\<close>; timestamps are epoch
  milliseconds, an \<open>int\<close>; prices and coordinates are \<open>real\<close> (no NaN, no rounding).
\<close>

datatype 'a js_opt = Undefined | Null | Val 'a

type_synonym jsstring = "16 word list"

definition truthy_str :: "'c list js_opt \<Rightarrow> bool" where
  "truthy_str v = (case v of Val s \<Rightarrow> s \<noteq> [] | _ \<Rightarrow> False)"

definition truthy_num :: "('n::zero) js_opt \<Rightarrow> bool" where
  "truthy_num v = (case v of Val n \<Rightarrow> n \<noteq> 0 | _ \<Rightarrow> False)"

definition truthy_val :: "'a js_opt \<Rightarrow> bool" where
  \<comment> \<open>for values whose every inhabitant is truthy (the status enumerations)\<close>
  "truthy_val v = (case v of Val _ \<Rightarrow> True | _ \<Rightarrow> False)"

definition or_null_str :: "'c list js_opt \<Rightarrow> 'c list js_opt" where
  \<comment> \<open>\<open>v || null\<close> on optional text\<close>
  "or_null_str v = (if truthy_str v then v else Null)"

definition or_null_num :: "('n::zero) js_opt \<Rightarrow> 'n js_opt" where
  \<comment> \<open>\<open>v || null\<close> on an optional number\<close>
  "or_null_num v = (if truthy_num v then v else Null)"

definition or_null_val :: "'a js_opt \<Rightarrow> 'a js_opt" where
  "or_null_val v = (if truthy_val v then v else Null)"

section \<open>JSON text (the platform's \<open>JSON.stringify\<close> and \<open>JSON.parse\<close>)\<close>

text \<open>
  The store keeps a list of image references as JSON text in one TEXT column. Both
  functions belong to the JavaScript platform, not to the repository; they are written
  out here after ECMA-262 (QuoteJSONString, UnicodeEscape) and the JSON grammar of
  ECMA-404, on UTF-16 code units. \<open>JSON_stringify\<close> covers what the store passes to it,
  an array of strings; \<open>JSON_parse\<close> covers the whole grammar, a number being kept as
  its lexeme. An object is the finite map from its keys to their values: the members of
  the text are added in the order they are written, so that a key written twice keeps
  the value written last (\<open>create_properties\<close>). The length tests in
  \<open>parse_elements\<close> and \<open>parse_members\<close> only make the recursion visibly
  terminating: a parser never returns more input than it was given.
  The text \<open>JSON_stringify\<close> produces has every control character and every lone
  surrogate escaped, so the TEXT column returns it unchanged.
\<close>

datatype json = JNull | JBool bool | JNumber jsstring | JString jsstring
  | JArray "json list" | JObject "(jsstring, json) fmap"

definition create_properties :: "(jsstring \<times> json) list \<Rightarrow> (jsstring, json) fmap" where
  \<comment> \<open>CreateDataProperty for every member, first to last\<close>
  "create_properties ms = foldl (\<lambda>ob (k, v). fmupd k v ob) fmempty ms"

definition hex_digit :: "nat \<Rightarrow> 16 word" where
  "hex_digit d = (if d < 10 then of_nat (48 + d) else of_nat (87 + d))"

definition UnicodeEscape :: "16 word \<Rightarrow> jsstring" where
  "UnicodeEscape c =
     [0x5C, 0x75, hex_digit (unat c div 4096), hex_digit (unat c div 256 mod 16),
      hex_digit (unat c div 16 mod 16), hex_digit (unat c mod 16)]"

definition is_high_surrogate :: "16 word \<Rightarrow> bool" where
  "is_high_surrogate c = (0xD800 \<le> c \<and> c \<le> 0xDBFF)"

definition is_low_surrogate :: "16 word \<Rightarrow> bool" where
  "is_low_surrogate c = (0xDC00 \<le> c \<and> c \<le> 0xDFFF)"

fun quote_units :: "jsstring \<Rightarrow> jsstring" where
  "quote_units [] = []"
| "quote_units (c # cs) =
     (if c = 0x08 then [0x5C, 0x62] @ quote_units cs
      else if c = 0x09 then [0x5C, 0x74] @ quote_units cs
      else if c = 0x0A then [0x5C, 0x6E] @ quote_units cs
      else if c = 0x0C then [0x5C, 0x66] @ quote_units cs
      else if c = 0x0D then [0x5C, 0x72] @ quote_units cs
      else if c = 0x22 then [0x5C, 0x22] @ quote_units cs
      else if c = 0x5C then [0x5C, 0x5C] @ quote_units cs
      else if c < 0x20 then UnicodeEscape c @ quote_units cs
      else if is_high_surrogate c then
        (case cs of
           [] \<Rightarrow> UnicodeEscape c
         | d # ds \<Rightarrow>
             if is_low_surrogate d then c # d # quote_units ds
             else UnicodeEscape c @ quote_units cs)
      else if is_low_surrogate c then UnicodeEscape c @ quote_units cs
      else c # quote_units cs)"

definition QuoteJSONString :: "jsstring \<Rightarrow> jsstring" where
  "QuoteJSONString s = 0x22 # quote_units s @ [0x22]"

fun join_commas :: "jsstring list \<Rightarrow> jsstring" where
  "join_commas [] = []"
| "join_commas [x] = x"
| "join_commas (x # y # ys) = x @ 0x2C # join_commas (y # ys)"

definition JSON_stringify :: "jsstring list \<Rightarrow> jsstring" where
  "JSON_stringify xs = 0x5B # join_commas (map QuoteJSONString xs) @ [0x5D]"

definition is_ws :: "16 word \<Rightarrow> bool" where
  "is_ws c = (c = 0x20 \<or> c = 0x09 \<or> c = 0x0A \<or> c = 0x0D)"

definition skip_ws :: "jsstring \<Rightarrow> jsstring" where
  "skip_ws = dropWhile is_ws"

definition is_digit :: "16 word \<Rightarrow> bool" where
  "is_digit c = (0x30 \<le> c \<and> c \<le> 0x39)"

definition hex_value :: "16 word \<Rightarrow> nat option" where
  "hex_value c =
     (if 0x30 \<le> c \<and> c \<le> 0x39 then Some (unat c - 48)
      else if 0x41 \<le> c \<and> c \<le> 0x46 then Some (unat c - 55)
      else if 0x61 \<le> c \<and> c \<le> 0x66 then Some (unat c - 87)
      else None)"

definition parse_hex4 :: "jsstring \<Rightarrow> 16 word option" where
  "parse_hex4 cs =
     (case cs of
        a # b # c # d # _ \<Rightarrow>
          (case (hex_value a, hex_value b, hex_value c, hex_value d) of
             (Some w, Some x, Some y, Some z) \<Rightarrow> Some (of_nat (((w * 16 + x) * 16 + y) * 16 + z))
           | _ \<Rightarrow> None)
      | _ \<Rightarrow> None)"

definition simple_escape :: "16 word \<Rightarrow> 16 word option" where
  "simple_escape e =
     (if e = 0x22 then Some 0x22
      else if e = 0x5C then Some 0x5C
      else if e = 0x2F then Some 0x2F
      else if e = 0x62 then Some 0x08
      else if e = 0x66 then Some 0x0C
      else if e = 0x6E then Some 0x0A
      else if e = 0x72 then Some 0x0D
      else if e = 0x74 then Some 0x09
      else None)"

definition cons_result :: "'a \<Rightarrow> ('a list \<times> 'b) option \<Rightarrow> ('a list \<times> 'b) option" where
  "cons_result x r = (case r of None \<Rightarrow> None | Some (xs, rest) \<Rightarrow> Some (x # xs, rest))"

fun parse_chars :: "jsstring \<Rightarrow> (jsstring \<times> jsstring) option" where
  "parse_chars [] = None"
| "parse_chars (c # cs) =
     (if c = 0x22 then Some ([], cs)
      else if c = 0x5C then
        (case cs of
           [] \<Rightarrow> None
         | e # es \<Rightarrow>
             if e = 0x75 then
               (case parse_hex4 es of
                  None \<Rightarrow> None
                | Some u \<Rightarrow> cons_result u (parse_chars (drop 4 es)))
             else
               (case simple_escape e of
                  None \<Rightarrow> None
                | Some u \<Rightarrow> cons_result u (parse_chars es)))
      else if c < 0x20 then None
      else cons_result c (parse_chars cs))"


definition parse_int_part :: "jsstring \<Rightarrow> (jsstring \<times> jsstring) option" where
  "parse_int_part cs =
     (case cs of
        [] \<Rightarrow> None
      | c # rest \<Rightarrow>
          if c = 0x30 then Some ([c], rest)
          else if 0x31 \<le> c \<and> c \<le> 0x39
            then Some (c # takeWhile is_digit rest, dropWhile is_digit rest)
          else None)"

definition parse_frac :: "jsstring \<Rightarrow> (jsstring \<times> jsstring) option" where
  "parse_frac cs =
     (case cs of
        [] \<Rightarrow> Some ([], cs)
      | c # rest \<Rightarrow>
          if c = 0x2E then
            (if takeWhile is_digit rest = [] then None
             else Some (c # takeWhile is_digit rest, dropWhile is_digit rest))
          else Some ([], cs))"

definition parse_exp :: "jsstring \<Rightarrow> (jsstring \<times> jsstring) option" where
  "parse_exp cs =
     (case cs of
        [] \<Rightarrow> Some ([], cs)
      | c # rest \<Rightarrow>
          if c = 0x65 \<or> c = 0x45 then
            (let sgn = (case rest of [] \<Rightarrow> [] | s # _ \<Rightarrow> if s = 0x2B \<or> s = 0x2D then [s] else []);
                 ds = drop (length sgn) rest
             in if takeWhile is_digit ds = [] then None
                else Some (c # sgn @ takeWhile is_digit ds, dropWhile is_digit ds))
          else Some ([], cs))"

definition parse_number :: "jsstring \<Rightarrow> (json \<times> jsstring) option" where
  "parse_number cs =
     (let sgn = (case cs of [] \<Rightarrow> [] | s # _ \<Rightarrow> if s = 0x2D then [s] else [])
      in case parse_int_part (drop (length sgn) cs) of
           None \<Rightarrow> None
         | Some (i, r1) \<Rightarrow>
             (case parse_frac r1 of
                None \<Rightarrow> None
              | Some (f, r2) \<Rightarrow>
                  (case parse_exp r2 of
                     None \<Rightarrow> None
                   | Some (e, r3) \<Rightarrow> Some (JNumber (sgn @ i @ f @ e), r3))))"

function (sequential) parse_value :: "jsstring \<Rightarrow> (json \<times> jsstring) option"
  and parse_elements :: "jsstring \<Rightarrow> (json list \<times> jsstring) option"
  and parse_members :: "jsstring \<Rightarrow> ((jsstring \<times> json) list \<times> jsstring) option"
where
  "parse_value [] = None"
| "parse_value (c # cs) =
     (if c = 0x22 then
        (case parse_chars cs of None \<Rightarrow> None | Some (s, r) \<Rightarrow> Some (JString s, r))
      else if c = 0x5B then
        (case skip_ws cs of
           [] \<Rightarrow> None
         | d # ds \<Rightarrow>
             if d = 0x5D then Some (JArray [], ds)
             else (case parse_elements (d # ds) of
                     None \<Rightarrow> None
                   | Some (vs, r) \<Rightarrow> Some (JArray vs, r)))
      else if c = 0x7B then
        (case skip_ws cs of
           [] \<Rightarrow> None
         | d # ds \<Rightarrow>
             if d = 0x7D then Some (JObject fmempty, ds)
             else (case parse_members (d # ds) of
                     None \<Rightarrow> None
                   | Some (ms, r) \<Rightarrow> Some (JObject (create_properties ms), r)))
      else if take 4 (c # cs) = [0x74, 0x72, 0x75, 0x65] then Some (JBool True, drop 3 cs)
      else if take 5 (c # cs) = [0x66, 0x61, 0x6C, 0x73, 0x65] then Some (JBool False, drop 4 cs)
      else if take 4 (c # cs) = [0x6E, 0x75, 0x6C, 0x6C] then Some (JNull, drop 3 cs)
      else parse_number (c # cs))"
| "parse_elements cs =
     (case parse_value cs of
        None \<Rightarrow> None
      | Some (v, r) \<Rightarrow>
          (case skip_ws r of
             [] \<Rightarrow> None
           | d # ds \<Rightarrow>
               if d = 0x5D then Some ([v], ds)
               else if d = 0x2C then
                 (if length ds < length cs then cons_result v (parse_elements (skip_ws ds))
                  else None)
               else None))"
| "parse_members cs =
     (case cs of
        [] \<Rightarrow> None
      | q # ks \<Rightarrow>
          if q \<noteq> 0x22 then None
          else
            (case parse_chars ks of
               None \<Rightarrow> None
             | Some (k, r) \<Rightarrow>
                 (case skip_ws r of
                    [] \<Rightarrow> None
                  | colon # r1 \<Rightarrow>
                      if colon \<noteq> 0x3A \<or> length ks < length r1 then None
                      else
                        (case parse_value (skip_ws r1) of
                           None \<Rightarrow> None
                         | Some (v, r2) \<Rightarrow>
                             (case skip_ws r2 of
                                [] \<Rightarrow> None
                              | d # ds \<Rightarrow>
                                  if d = 0x7D then Some ([(k, v)], ds)
                                  else if d = 0x2C then
                                    (if length ds < length cs
                                     then cons_result (k, v) (parse_members (skip_ws ds))
                                     else None)
                                  else None)))))"
  by pat_completeness auto

termination
proof (relation "measure (\<lambda>x. case x of
          Inl cs \<Rightarrow> 2 * length cs
        | Inr (Inl cs) \<Rightarrow> 2 * length cs + 1
        | Inr (Inr cs) \<Rightarrow> 2 * length cs + 1)", goal_cases)
  case 1
  show ?case by simp
next
  case (2 c cs d ds)
  then show ?case using length_dropWhile_le [of is_ws cs] by (simp add: skip_ws_def)
next
  case (3 c cs d ds)
  then show ?case using length_dropWhile_le [of is_ws cs] by (simp add: skip_ws_def)
next
  case (4 cs)
  show ?case by simp
next
  case (5 cs x2 v r d ds)
  then show ?case using length_dropWhile_le [of is_ws ds] by (simp add: skip_ws_def)
next
  case (6 cs q ks x2 k r colon r1)
  then show ?case using length_dropWhile_le [of is_ws r1] by (simp add: skip_ws_def)
next
  case (7 cs q ks x2 k r colon r1 x2a v r2 d ds)
  then show ?case using length_dropWhile_le [of is_ws ds] by (simp add: skip_ws_def)
qed

definition JSON_parse :: "jsstring \<Rightarrow> json option" where
  \<comment> \<open>\<open>None\<close> stands for the SyntaxError\<close>
  "JSON_parse text =
     (case parse_value (skip_ws text) of
        None \<Rightarrow> None
      | Some (v, r) \<Rightarrow> if skip_ws r = [] then Some v else None)"

definition js :: "string \<Rightarrow> jsstring" where
  \<comment> \<open>a text literal as code units\<close>
  "js s = map (\<lambda>c. of_nat (of_char c)) s"

section \<open>Data model\<close>

datatype TaskStatus = pending | in_progress | "done" | cancelled
datatype SyncStatus = pending_sync | syncing | synced
datatype ConflictResolution = client_wins | server_wins | manual

record TaskLocation =
  lat :: real
  lng :: real
  address :: string

text \<open>
  \<open>TaskData\<close> (sqlite-db.ts): one row of table \<open>tasks\<close>, and the private copy a
  \<open>TaskAdapter\<close> holds. The field \<open>id\<close> is called \<open>data_id\<close> here.
\<close>

record TaskData =
  data_id :: string
  title :: string
  description :: "string js_opt"
  status :: TaskStatus
  sync_status :: SyncStatus
  server_id :: "string js_opt"
  server_status :: "TaskStatus js_opt"
  conflict_resolution :: "ConflictResolution js_opt"
  created_at :: int
  updated_at :: int
  synced_at :: "int js_opt"
  price :: "real js_opt"
  location_lat :: "real js_opt"
  location_lng :: "real js_opt"
  location_address :: "string js_opt"
  image_url :: "jsstring js_opt"
  expires_at :: "int js_opt"

text \<open>
  \<open>Partial<TaskData>\<close> as \<open>updateTask\<close> receives it. A required column is absent
  (\<open>None\<close>) or given; an optional column is \<open>Undefined\<close>, \<open>Null\<close> or a value.
\<close>

record TaskUpdates =
  u_title :: "string option"
  u_description :: "string js_opt"
  u_status :: "TaskStatus option"
  u_sync_status :: "SyncStatus option"
  u_server_id :: "string js_opt"
  u_server_status :: "TaskStatus js_opt"
  u_conflict_resolution :: "ConflictResolution js_opt"
  u_updated_at :: "int option"
  u_synced_at :: "int js_opt"
  u_price :: "real js_opt"
  u_location_lat :: "real js_opt"
  u_location_lng :: "real js_opt"
  u_location_address :: "string js_opt"
  u_image_url :: "jsstring js_opt"
  u_expires_at :: "int js_opt"

definition no_updates :: TaskUpdates where
  "no_updates = \<lparr> u_title = None, u_description = Undefined, u_status = None,
     u_sync_status = None, u_server_id = Undefined, u_server_status = Undefined,
     u_conflict_resolution = Undefined, u_updated_at = None, u_synced_at = Undefined,
     u_price = Undefined, u_location_lat = Undefined, u_location_lng = Undefined,
     u_location_address = Undefined, u_image_url = Undefined, u_expires_at = Undefined \<rparr>"

section \<open>The SQLite table (sqlite-db.ts)\<close>

definition set_req :: "'a option \<Rightarrow> 'a \<Rightarrow> 'a" where
  \<comment> \<open>\<open>if (updates.f !== undefined) SET f = updates.f\<close>\<close>
  "set_req u old = (case u of None \<Rightarrow> old | Some v \<Rightarrow> v)"

definition set_opt :: "('a js_opt \<Rightarrow> 'a js_opt) \<Rightarrow> 'a js_opt \<Rightarrow> 'a js_opt \<Rightarrow> 'a js_opt" where
  \<comment> \<open>\<open>if (updates.f !== undefined) SET f = (updates.f || null)\<close>\<close>
  "set_opt or_null u old = (case u of Undefined \<Rightarrow> old | _ \<Rightarrow> or_null u)"

definition apply_updates :: "TaskUpdates \<Rightarrow> TaskData \<Rightarrow> TaskData" where
  "apply_updates u r = r \<lparr>
     title := set_req (u_title u) (title r),
     description := set_opt or_null_str (u_description u) (description r),
     status := set_req (u_status u) (status r),
     sync_status := set_req (u_sync_status u) (sync_status r),
     server_id := set_opt or_null_str (u_server_id u) (server_id r),
     server_status := set_opt or_null_val (u_server_status u) (server_status r),
     conflict_resolution :=
       set_opt or_null_val (u_conflict_resolution u) (conflict_resolution r),
     updated_at := set_req (u_updated_at u) (updated_at r),
     synced_at := set_opt or_null_num (u_synced_at u) (synced_at r),
     price := set_opt or_null_num (u_price u) (price r),
     location_lat := set_opt or_null_num (u_location_lat u) (location_lat r),
     location_lng := set_opt or_null_num (u_location_lng u) (location_lng r),
     location_address := set_opt or_null_str (u_location_address u) (location_address r),
     image_url := set_opt or_null_str (u_image_url u) (image_url r),
     expires_at := set_opt or_null_num (u_expires_at u) (expires_at r) \<rparr>"

definition updateTask :: "string \<Rightarrow> TaskUpdates \<Rightarrow> TaskData list \<Rightarrow> TaskData list" where
  \<comment> \<open>\<open>UPDATE tasks SET ... WHERE id = ?\<close>; nothing is run when no field is given\<close>
  "updateTask i u rows =
     (if u = no_updates then rows
      else map (\<lambda>r. if data_id r = i then apply_updates u r else r) rows)"

definition deleteTask :: "string \<Rightarrow> TaskData list \<Rightarrow> TaskData list" where
  \<comment> \<open>\<open>DELETE FROM tasks WHERE id = ?\<close>\<close>
  "deleteTask i rows = filter (\<lambda>r. data_id r \<noteq> i) rows"

definition getTask :: "string \<Rightarrow> TaskData list \<Rightarrow> TaskData option" where
  \<comment> \<open>\<open>SELECT * FROM tasks WHERE id = ?\<close>, first row or null\<close>
  "getTask i rows = (case filter (\<lambda>r. data_id r = i) rows of [] \<Rightarrow> None | r # _ \<Rightarrow> Some r)"

definition getAllTasks :: "TaskData list \<Rightarrow> TaskData list" where
  \<comment> \<open>\<open>SELECT * FROM tasks ORDER BY updated_at DESC\<close> (ties in table order)\<close>
  "getAllTasks rows = sort_key (\<lambda>r. - updated_at r) rows"

definition createTask :: "string \<Rightarrow> TaskData \<Rightarrow> TaskData list \<Rightarrow> TaskData list" where
  \<comment> \<open>\<open>INSERT INTO tasks ... VALUES (...)\<close> with the row id already generated; every
     optional value goes through \<open>|| null\<close>\<close>
  "createTask i t rows = rows @
     [\<lparr> data_id = i, title = title t, description = or_null_str (description t),
        status = status t, sync_status = sync_status t,
        server_id = or_null_str (server_id t),
        server_status = or_null_val (server_status t),
        conflict_resolution = or_null_val (conflict_resolution t),
        created_at = created_at t, updated_at = updated_at t,
        synced_at = or_null_num (synced_at t), price = or_null_num (price t),
        location_lat = or_null_num (location_lat t),
        location_lng = or_null_num (location_lng t),
        location_address = or_null_str (location_address t),
        image_url = or_null_str (image_url t),
        expires_at = or_null_num (expires_at t) \<rparr>]"

section \<open>Errors\<close>

text \<open>
  A thrown value is an error object; the handlers look at its \<open>name\<close> and search its
  \<open>message\<close>. A computation that can throw returns \<open>js_error + 'a\<close>.
\<close>

record js_error =
  err_name :: string
  err_message :: string

definition Error :: "string \<Rightarrow> js_error" where
  "Error m = \<lparr> err_name = ''Error'', err_message = m \<rparr>"

primrec str_includes :: "string \<Rightarrow> string \<Rightarrow> bool" where
  \<comment> \<open>\<open>s.includes(pat)\<close>\<close>
  "str_includes [] pat = (pat = [])"
| "str_includes (c # cs) pat = (take (length pat) (c # cs) = pat \<or> str_includes cs pat)"

section \<open>The task adapter (taskAdapter.ts)\<close>

text \<open>
  A \<open>TaskAdapter\<close> is a private copy of a row plus methods that change the copy and
  write the changed columns to the table. Each method is a function from the copy and
  the table to the new copy and the new table; \<open>Date.now()\<close> is the argument \<open>now\<close>.
  The change notification that ends every method only calls the user interface's
  subscribers with a fresh list of rows and is left out.
\<close>

definition location :: "TaskData \<Rightarrow> TaskLocation js_opt" where
  "location d =
     (case (location_lat d, location_lng d) of
        (Val la, Val lo) \<Rightarrow>
          if la \<noteq> 0 \<and> lo \<noteq> 0
          then Val \<lparr> lat = la, lng = lo,
                 address = (case location_address d of Val a \<Rightarrow> a | _ \<Rightarrow> []) \<rparr>
          else Undefined
      | _ \<Rightarrow> Undefined)"

definition set_location :: "TaskLocation js_opt \<Rightarrow> TaskData \<Rightarrow> TaskData" where
  "set_location v d =
     (case v of
        Val l \<Rightarrow> d \<lparr> location_lat := Val (lat l), location_lng := Val (lng l),
                   location_address := Val (address l) \<rparr>
      | _ \<Rightarrow> d \<lparr> location_lat := Undefined, location_lng := Undefined,
                 location_address := Undefined \<rparr>)"

datatype image_value = ImageUndefined | ImageString jsstring | ImageArray "json list"

definition imageUrl :: "TaskData \<Rightarrow> image_value" where
  "imageUrl d =
     (case image_url d of
        Val raw \<Rightarrow>
          if raw = [] then ImageUndefined
          else (case JSON_parse raw of
                  Some (JArray vs) \<Rightarrow> ImageArray vs
                | _ \<Rightarrow> ImageString raw)
      | _ \<Rightarrow> ImageUndefined)"

datatype image_input = SetArray "jsstring list" | SetOther "jsstring js_opt"

definition set_imageUrl :: "image_input \<Rightarrow> TaskData \<Rightarrow> TaskData" where
  "set_imageUrl v d =
     (case v of
        SetArray xs \<Rightarrow> d \<lparr> image_url := Val (JSON_stringify xs) \<rparr>
      | SetOther s \<Rightarrow> d \<lparr> image_url := s \<rparr>)"

definition syncedAt :: "TaskData \<Rightarrow> int js_opt" where
  "syncedAt d = (if truthy_num (synced_at d) then synced_at d else Undefined)"

definition expiresAt :: "TaskData \<Rightarrow> int js_opt" where
  "expiresAt d = (if truthy_num (expires_at d) then expires_at d else Undefined)"

definition all_fields :: "TaskData \<Rightarrow> TaskUpdates" where
  \<comment> \<open>the object literal \<open>update\<close> hands to \<open>updateTask\<close>: every column but the row id
     and \<open>created_at\<close>\<close>
  "all_fields d = \<lparr> u_title = Some (title d), u_description = description d,
     u_status = Some (status d), u_sync_status = Some (sync_status d),
     u_server_id = server_id d, u_server_status = server_status d,
     u_conflict_resolution = conflict_resolution d, u_updated_at = Some (updated_at d),
     u_synced_at = synced_at d, u_price = price d, u_location_lat = location_lat d,
     u_location_lng = location_lng d, u_location_address = location_address d,
     u_image_url = image_url d, u_expires_at = expires_at d \<rparr>"

definition update ::
  "(TaskData \<Rightarrow> TaskData) \<Rightarrow> TaskData \<Rightarrow> TaskData list \<Rightarrow> TaskData \<times> TaskData list" where
  "update updater a rows =
     (let a' = updater a in (a', updateTask (data_id a) (all_fields a') rows))"

definition updateStatus ::
  "TaskStatus \<Rightarrow> int \<Rightarrow> TaskData \<Rightarrow> TaskData list \<Rightarrow> TaskData \<times> TaskData list" where
  "updateStatus newStatus now a rows =
     (let a1 = a \<lparr> status := newStatus, updated_at := now \<rparr>;
          a2 = (if sync_status a1 = synced then a1 \<lparr> sync_status := pending_sync \<rparr> else a1)
      in (a2, updateTask (data_id a)
                (no_updates \<lparr> u_status := Some newStatus,
                              u_updated_at := Some (updated_at a2),
                              u_sync_status := Some (sync_status a2) \<rparr>) rows))"

definition markAsSyncing :: "TaskData \<Rightarrow> TaskData list \<Rightarrow> TaskData \<times> TaskData list" where
  "markAsSyncing a rows =
     (a \<lparr> sync_status := syncing \<rparr>,
      updateTask (data_id a) (no_updates \<lparr> u_sync_status := Some syncing \<rparr>) rows)"

definition markAsSynced ::
  "string js_opt \<Rightarrow> TaskStatus js_opt \<Rightarrow> int \<Rightarrow> TaskData \<Rightarrow> TaskData list
     \<Rightarrow> TaskData \<times> TaskData list" where
  "markAsSynced serverId serverStatus now a rows =
     (let a1 = a \<lparr> sync_status := synced, synced_at := Val now \<rparr>;
          a2 = (if truthy_str serverId then a1 \<lparr> server_id := serverId \<rparr> else a1);
          a3 = (if truthy_val serverStatus then a2 \<lparr> server_status := serverStatus \<rparr> else a2)
      in (a3, updateTask (data_id a)
                (no_updates \<lparr> u_sync_status := Some synced,
                              u_synced_at := synced_at a3,
                              u_server_id := server_id a3,
                              u_server_status := server_status a3 \<rparr>) rows))"

definition resolveConflict ::
  "ConflictResolution \<Rightarrow> TaskStatus js_opt \<Rightarrow> int \<Rightarrow> TaskData \<Rightarrow> TaskData list
     \<Rightarrow> TaskData \<times> TaskData list" where
  "resolveConflict resolution finalStatus now a rows =
     (let a1 = a \<lparr> conflict_resolution := Val resolution \<rparr>;
          a2 = (case finalStatus of Val s \<Rightarrow> a1 \<lparr> status := s \<rparr> | _ \<Rightarrow> a1);
          a3 = a2 \<lparr> sync_status := pending_sync, updated_at := now \<rparr>
      in (a3, updateTask (data_id a)
                (no_updates \<lparr> u_conflict_resolution := Val resolution,
                              u_status := Some (status a3),
                              u_sync_status := Some pending_sync,
                              u_updated_at := Some (updated_at a3) \<rparr>) rows))"

definition destroyPermanently :: "TaskData \<Rightarrow> TaskData list \<Rightarrow> TaskData list" where
  "destroyPermanently a rows = deleteTask (data_id a) rows"

text \<open>
  \<open>database.get('tasks')\<close>. The random UUID of a new row is the argument \<open>uuid\<close>; an
  insert under an id the table already holds violates the primary key and throws.
\<close>

definition tempTask :: "int \<Rightarrow> TaskData" where
  "tempTask now = \<lparr> data_id = ''temp'', title = [], description = Undefined,
     status = pending, sync_status = pending_sync, server_id = Undefined,
     server_status = Undefined, conflict_resolution = Undefined, created_at = now,
     updated_at = now, synced_at = Undefined, price = Undefined,
     location_lat = Undefined, location_lng = Undefined, location_address = Undefined,
     image_url = Undefined, expires_at = Undefined \<rparr>"

definition database_create ::
  "string \<Rightarrow> int \<Rightarrow> (TaskData \<Rightarrow> TaskData) \<Rightarrow> TaskData list
     \<Rightarrow> (js_error + TaskData) \<times> TaskData list" where
  "database_create uuid now initializer rows =
     (let t = initializer (tempTask now);
          i = ''task_'' @ uuid
      in if i \<in> data_id ` set rows
         then (Inl (Error ''UNIQUE constraint failed: tasks.id''), rows)
         else
           (let rows' = createTask i
                  (t \<lparr> created_at := now, updated_at := now, server_id := Undefined,
                       server_status := Undefined, conflict_resolution := Undefined,
                       synced_at := Undefined \<rparr>) rows
            in case getTask i rows' of
                 None \<Rightarrow> (Inl (Error ''Failed to create task''), rows')
               | Some created \<Rightarrow> (Inr created, rows')))"

definition database_find :: "string \<Rightarrow> TaskData list \<Rightarrow> js_error + TaskData" where
  "database_find i rows =
     (case getTask i rows of None \<Rightarrow> Inl (Error ''Task not found'') | Some d \<Rightarrow> Inr d)"

definition database_fetch :: "TaskData list \<Rightarrow> TaskData list" where
  \<comment> \<open>\<open>query().fetch()\<close>: a fresh adapter for every row\<close>
  "database_fetch rows = getAllTasks rows"

section \<open>The remote (mockApi.ts and the HTTP interface)\<close>

text \<open>
  The request object both mock paths build from a task. \<open>expires_at\<close> is an ISO-8601
  text in the source; the instant it denotes is kept. \<open>toISOString\<close> belongs to the
  platform: a \<open>Date\<close> made from a number beyond 8.64e15 milliseconds on either side
  of the epoch is invalid, and \<open>toISOString\<close> throws a \<open>RangeError\<close> on it (the
  wording of its message differs between engines; none mentions the network). The
  object literal is evaluated before the mock API is called, so a throw leaves the
  world as it was.
\<close>

definition invalid_time :: js_error where
  "invalid_time = \<lparr> err_name = ''RangeError'', err_message = ''Invalid time value'' \<rparr>"

definition toISOString :: "int \<Rightarrow> js_error + int" where
  "toISOString t = (if abs t \<le> 8640000000000000 then Inr t else Inl invalid_time)"

record TaskPayload =
  p_title :: string
  p_description :: "string js_opt"
  p_status :: TaskStatus
  p_price :: "real js_opt"
  p_location :: "TaskLocation js_opt"
  p_image_url :: "json js_opt"
  p_expires_at :: "int js_opt"

definition first_image :: "TaskData \<Rightarrow> json js_opt" where
  \<comment> \<open>\<open>Array.isArray(task.imageUrl) ? task.imageUrl[0] : task.imageUrl\<close>\<close>
  "first_image t =
     (case imageUrl t of
        ImageArray vs \<Rightarrow> (case vs of [] \<Rightarrow> Undefined | v # _ \<Rightarrow> Val v)
      | ImageString s \<Rightarrow> Val (JString s)
      | ImageUndefined \<Rightarrow> Undefined)"

definition expires_iso :: "TaskData \<Rightarrow> js_error + int js_opt" where
  \<comment> \<open>\<open>task.expiresAt ? task.expiresAt.toISOString() : undefined\<close>\<close>
  "expires_iso t =
     (case expiresAt t of
        Val x \<Rightarrow> (case toISOString x of Inl err \<Rightarrow> Inl err | Inr isoText \<Rightarrow> Inr (Val isoText))
      | _ \<Rightarrow> Inr Undefined)"

definition payload :: "TaskData \<Rightarrow> js_error + TaskPayload" where
  "payload t =
     (case expires_iso t of
        Inl err \<Rightarrow> Inl err
      | Inr isoText \<Rightarrow>
          Inr \<lparr> p_title = title t, p_description = description t, p_status = status t,
                p_price = price t, p_location = location t, p_image_url = first_image t,
                p_expires_at = isoText \<rparr>)"

record TaskResponse =
  r_id :: string
  r_title :: string
  r_description :: "string js_opt"
  r_status :: TaskStatus
  r_price :: "real js_opt"
  r_location :: "TaskLocation js_opt"
  r_image_url :: "json js_opt"
  r_expires_at :: "int js_opt"
  r_created_at :: int
  r_updated_at :: int

function decimal :: "nat \<Rightarrow> string" where
  \<comment> \<open>a number inside a template literal\<close>
  "decimal n =
     (if n < 10 then [char_of (48 + n)] else decimal (n div 10) @ [char_of (48 + n mod 10)])"
  by pat_completeness auto
termination
  by (relation "measure id") auto

declare decimal.simps [simp del]

definition keep_unless_given :: "'a js_opt \<Rightarrow> 'a js_opt \<Rightarrow> 'a js_opt" where
  \<comment> \<open>\<open>given !== undefined ? given : existing\<close>\<close>
  "keep_unless_given given existing = (if given \<noteq> Undefined then given else existing)"

text \<open>
  The HTTP interface: a request carries the three fields the source serialises; a call of
  \<open>fetch\<close> either throws or yields a response with \<open>ok\<close>, \<open>statusText\<close> and the
  outcome of \<open>json()\<close>, taken at the type the source declares for it.
\<close>

record http_request =
  req_method :: string
  req_url :: string
  req_body :: "(string \<times> string js_opt \<times> TaskStatus) option"

record remote_response =
  resp_id :: string
  resp_status :: TaskStatus

datatype fetch_result =
    FetchThrows js_error
  | FetchResponse bool string "js_error + remote_response option"

datatype remote_call =
    MockCreate TaskPayload
  | MockUpdate string TaskPayload
  | HttpFetch http_request

section \<open>The sync engine's world\<close>

text \<open>
  What the engine cannot control is an \<open>env\<close>: the constant \<open>USE_MOCK_API\<close>, the
  system clock and the network, the latter two as functions of the number of
  observations made so far (\<open>tick\<close>), so that two readings may differ in any way.
  The mutable state is a \<open>world\<close>: the manager's two flags, the table, the persisted
  queue (the AsyncStorage item \<open>sync_queue\<close>, \<open>None\<close> when the key is absent; its JSON
  text is kept parsed), and the mock API's store. Three fields only record what
  happened: \<open>notified\<close> counts the runs of \<open>notifyListeners\<close>, \<open>attempts\<close> lists the
  tasks \<open>syncTask\<close> was entered for, \<open>remote_log\<close> lists the calls made to a remote.
\<close>

datatype queue_action = Create | Update | Delete

record SyncQueueItem =
  taskId :: string
  action :: queue_action
  data :: "json js_opt"
  timestamp :: int

record env =
  use_mock_api :: bool
  clock :: "nat \<Rightarrow> int"
  net :: "nat \<Rightarrow> http_request \<Rightarrow> fetch_result"

record world =
  isOnline :: bool
  isSyncing :: bool
  tasks :: "TaskData list"
  sync_queue :: "SyncQueueItem list option"
  mockTasks :: "string \<rightharpoonup> TaskResponse"
  nextId :: nat
  tick :: nat
  notified :: nat
  attempts :: "string list"
  remote_log :: "remote_call list"

definition USE_MOCK_API :: bool where
  "USE_MOCK_API = True"

definition API_BASE_URL :: string where
  "API_BASE_URL = ''https://api.example.com''"

definition date_now :: "env \<Rightarrow> world \<Rightarrow> int \<times> world" where
  "date_now e w = (clock e (tick w), w \<lparr> tick := Suc (tick w) \<rparr>)"

definition fetch :: "env \<Rightarrow> http_request \<Rightarrow> world \<Rightarrow> fetch_result \<times> world" where
  "fetch e req w =
     (net e (tick w) req,
      w \<lparr> tick := Suc (tick w), remote_log := remote_log w @ [HttpFetch req] \<rparr>)"

definition notifyListeners :: "world \<Rightarrow> world" where
  "notifyListeners w = w \<lparr> notified := Suc (notified w) \<rparr>"

definition on_table ::
  "(TaskData \<Rightarrow> TaskData list \<Rightarrow> TaskData \<times> TaskData list) \<Rightarrow> TaskData \<Rightarrow> world
     \<Rightarrow> TaskData \<times> world" where
  \<comment> \<open>an adapter method run against the world's table\<close>
  "on_table m a w = (let (a', rows') = m a (tasks w) in (a', w \<lparr> tasks := rows' \<rparr>))"

definition timed ::
  "env \<Rightarrow> (int \<Rightarrow> TaskData \<Rightarrow> TaskData list \<Rightarrow> TaskData \<times> TaskData list) \<Rightarrow> TaskData
     \<Rightarrow> world \<Rightarrow> TaskData \<times> world" where
  \<comment> \<open>an adapter method that reads the clock once\<close>
  "timed e m a w = (let (now, w1) = date_now e w in on_table (m now) a w1)"

section \<open>The mock API (mockApi.ts)\<close>

text \<open>
  The in-memory store of the mock API and its counter are the fields \<open>mockTasks\<close> and
  \<open>nextId\<close> of the world. Every \<open>new Date()\<close> of the source is a reading of the
  clock: two for a record that is created, one for a record that is updated. The
  simulated delays are left out.
\<close>

definition mockApi_createTask :: "env \<Rightarrow> TaskPayload \<Rightarrow> world \<Rightarrow> TaskResponse \<times> world" where
  "mockApi_createTask e d w =
     (let i = nextId w;
          (created, w1) = date_now e (w \<lparr> nextId := nextId w + 1 \<rparr>);
          (updated, w2) = date_now e w1;
          task = \<lparr> r_id = ''task_'' @ decimal i, r_title = p_title d,
                   r_description = p_description d, r_status = p_status d,
                   r_price = p_price d, r_location = p_location d,
                   r_image_url = p_image_url d, r_expires_at = p_expires_at d,
                   r_created_at = created, r_updated_at = updated \<rparr>
      in (task, w2 \<lparr> mockTasks := (mockTasks w2)(r_id task \<mapsto> task) \<rparr>))"

definition mockApi_updateTask ::
  "env \<Rightarrow> string \<Rightarrow> TaskPayload \<Rightarrow> world \<Rightarrow> TaskResponse \<times> world" where
  "mockApi_updateTask e i d w =
     (case mockTasks w i of
        None \<Rightarrow>
          (let (created, w1) = date_now e w;
               (updated, w2) = date_now e w1;
               newTask = \<lparr> r_id = i, r_title = p_title d,
                  r_description = p_description d, r_status = p_status d,
                  r_price = Undefined, r_location = Undefined, r_image_url = Undefined,
                  r_expires_at = Undefined, r_created_at = created, r_updated_at = updated \<rparr>
           in (newTask, w2 \<lparr> mockTasks := (mockTasks w2)(i \<mapsto> newTask) \<rparr>))
      | Some existingTask \<Rightarrow>
          (let (updated, w1) = date_now e w;
               updatedTask = existingTask \<lparr> r_title := p_title d,
                  r_description := p_description d, r_status := p_status d,
                  r_price := keep_unless_given (p_price d) (r_price existingTask),
                  r_location := keep_unless_given (p_location d) (r_location existingTask),
                  r_image_url :=
                    keep_unless_given (p_image_url d) (r_image_url existingTask),
                  r_expires_at :=
                    keep_unless_given (p_expires_at d) (r_expires_at existingTask),
                  r_updated_at := updated \<rparr>
           in (updatedTask, w1 \<lparr> mockTasks := (mockTasks w1)(i \<mapsto> updatedTask) \<rparr>)))"

section \<open>The sync manager (syncManager.ts)\<close>

text \<open>
  The two remote wrappers take the constant \<open>USE_MOCK_API\<close> from the environment, so that
  both of their paths can be stated. On the mock paths the only thing that can throw is
  the request object (\<open>payload\<close>): \<open>mockApi.createTask\<close> never throws, and
  \<open>mockApi.updateTask\<close> creates a missing record instead of throwing. The inner
  \<open>catch\<close> of \<open>updateTaskOnServer\<close>, which turns ``Task not found'' into \<open>null\<close>,
  is applied to what the request object throws, and then the outer one. Failures of the
  local store and of AsyncStorage are not modelled: every store operation succeeds, and
  the outer \<open>catch\<close> of \<open>syncAll\<close> is never entered.
\<close>

definition is_network_error :: "js_error \<Rightarrow> bool" where
  "is_network_error err =
     (str_includes (err_message err) ''Network request failed''
      \<or> str_includes (err_message err) ''Failed to fetch'')"

definition rethrow_unless_network :: "js_error \<Rightarrow> js_error + 'a option" where
  \<comment> \<open>the \<open>catch\<close> of both remote wrappers: a network failure becomes \<open>null\<close>\<close>
  "rethrow_unless_network err = (if is_network_error err then Inr None else Inl err)"

definition template :: "string js_opt \<Rightarrow> string" where
  \<comment> \<open>an optional text inside a template literal\<close>
  "template v = (case v of Val s \<Rightarrow> s | Null \<Rightarrow> ''null'' | Undefined \<Rightarrow> ''undefined'')"

definition createTaskOnServer ::
  "env \<Rightarrow> TaskData \<Rightarrow> world \<Rightarrow> (js_error + remote_response option) \<times> world" where
  "createTaskOnServer e task w =
     (if use_mock_api e then
        (case payload task of
           Inl err \<Rightarrow> (rethrow_unless_network err, w)
         | Inr d \<Rightarrow>
             (let (response, w1) = mockApi_createTask e d w
              in (Inr (Some \<lparr> resp_id = r_id response, resp_status = r_status response \<rparr>),
                  w1 \<lparr> remote_log := remote_log w1 @ [MockCreate d] \<rparr>)))
      else
        (case fetch e \<lparr> req_method = ''POST'', req_url = API_BASE_URL @ ''/tasks'',
                         req_body = Some (title task, description task, status task) \<rparr> w of
           (FetchThrows err, w1) \<Rightarrow> (rethrow_unless_network err, w1)
         | (FetchResponse ok statusText body, w1) \<Rightarrow>
             if \<not> ok
             then (rethrow_unless_network (Error (''Failed to create task: '' @ statusText)), w1)
             else (case body of
                     Inl err \<Rightarrow> (rethrow_unless_network err, w1)
                   | Inr r \<Rightarrow> (Inr r, w1))))"

definition updateTaskOnServer ::
  "env \<Rightarrow> TaskData \<Rightarrow> world \<Rightarrow> (js_error + TaskStatus option) \<times> world" where
  "updateTaskOnServer e task w =
     (if use_mock_api e \<and> truthy_str (server_id task) then
        (case payload task of
           Inl err \<Rightarrow>
             (if str_includes (err_message err) ''Task not found'' then Inr None
              else rethrow_unless_network err, w)
         | Inr d \<Rightarrow>
             (let (response, w1) = mockApi_updateTask e (template (server_id task)) d w
              in (Inr (Some (r_status response)),
                  w1 \<lparr> remote_log :=
                         remote_log w1 @ [MockUpdate (template (server_id task)) d] \<rparr>)))
      else
        (case fetch e \<lparr> req_method = ''PUT'',
                         req_url = API_BASE_URL @ ''/tasks/'' @ template (server_id task),
                         req_body = Some (title task, description task, status task) \<rparr> w of
           (FetchThrows err, w1) \<Rightarrow> (rethrow_unless_network err, w1)
         | (FetchResponse ok statusText body, w1) \<Rightarrow>
             if \<not> ok
             then (rethrow_unless_network (Error (''Failed to update task: '' @ statusText)), w1)
             else (case body of
                     Inl err \<Rightarrow> (rethrow_unless_network err, w1)
                   | Inr r \<Rightarrow> (Inr (map_option resp_status r), w1))))"

definition conflict_table :: "TaskStatus \<Rightarrow> TaskStatus \<Rightarrow> ConflictResolution \<times> TaskStatus" where
  \<comment> \<open>the \<open>if\<close> chain that opens \<open>handleConflict\<close>: (resolution, finalStatus)\<close>
  "conflict_table localStatus serverStatus =
     (if serverStatus = cancelled \<and> localStatus = done then (client_wins, localStatus)
      else if localStatus = cancelled \<and> serverStatus = done then (server_wins, serverStatus)
      else (manual, localStatus))"

definition handleConflict ::
  "env \<Rightarrow> TaskData \<Rightarrow> TaskStatus \<Rightarrow> world \<Rightarrow> js_error option \<times> TaskData \<times> world" where
  \<comment> \<open>the first component is the error the method throws, if any\<close>
  "handleConflict e task serverStatus w =
     (let (resolution, finalStatus) = conflict_table (status task) serverStatus;
          (t1, w1) = timed e (resolveConflict resolution (Val finalStatus)) task w
      in if resolution = client_wins then
           (case updateTaskOnServer e t1 w1 of
              (Inl err, w2) \<Rightarrow> (Some err, t1, w2)
            | (Inr _, w2) \<Rightarrow>
                (let (t2, w3) = timed e (markAsSynced (server_id t1) (Val finalStatus)) t1 w2
                 in (None, t2, w3)))
         else if resolution = server_wins then
           (let (t2, w2) = timed e (markAsSynced (server_id t1) (Val serverStatus)) t1 w1
            in (None, t2, w2))
         else (None, t1, w1))"

definition syncTask_try ::
  "env \<Rightarrow> TaskData \<Rightarrow> world \<Rightarrow> js_error option \<times> TaskData \<times> world" where
  \<comment> \<open>the \<open>try\<close> block of \<open>syncTask\<close>, with the error it throws, if any\<close>
  "syncTask_try e task w =
     (let (t1, w1) = on_table markAsSyncing task w
      in if \<not> truthy_str (server_id t1) then
           (case createTaskOnServer e t1 w1 of
              (Inl err, w2) \<Rightarrow> (Some err, t1, w2)
            | (Inr None, w2) \<Rightarrow> (None, t1, w2)
            | (Inr (Some response), w2) \<Rightarrow>
                (let (t2, w3) =
                       timed e (markAsSynced (Val (resp_id response))
                                  (Val (resp_status response))) t1 w2
                 in (None, t2, w3)))
         else
           (case updateTaskOnServer e t1 w1 of
              (Inl err, w2) \<Rightarrow> (Some err, t1, w2)
            | (Inr (Some st), w2) \<Rightarrow>
                if st \<noteq> status t1 \<and> truthy_val (server_status t1)
                   \<and> server_status t1 \<noteq> Val (status t1)
                then handleConflict e t1 st w2
                else (let (t2, w3) = timed e (markAsSynced (server_id t1) (Val st)) t1 w2
                      in (None, t2, w3))
            | (Inr None, w2) \<Rightarrow>
                (case createTaskOnServer e t1 w2 of
                   (Inl err, w3) \<Rightarrow> (Some err, t1, w3)
                 | (Inr None, w3) \<Rightarrow> (None, t1, w3)
                 | (Inr (Some createResponse), w3) \<Rightarrow>
                     (let (t2, w4) =
                            timed e (markAsSynced (Val (resp_id createResponse))
                                       (Val (resp_status createResponse))) t1 w3
                      in (None, t2, w4)))))"

definition syncTask :: "env \<Rightarrow> TaskData \<Rightarrow> world \<Rightarrow> TaskData \<times> world" where
  "syncTask e task w =
     (case syncTask_try e task (w \<lparr> attempts := attempts w @ [data_id task] \<rparr>) of
        (None, t', w') \<Rightarrow> (t', w')
      | (Some err, t', w') \<Rightarrow>
          on_table (update (\<lambda>t. t \<lparr> sync_status := pending_sync \<rparr>)) t' w')"

definition is_queue_connectivity_error :: "js_error \<Rightarrow> bool" where
  "is_queue_connectivity_error err =
     (str_includes (err_message err) ''Network request failed''
      \<or> str_includes (err_message err) ''Failed to fetch''
      \<or> err_name err = ''TypeError'')"

definition process_item :: "env \<Rightarrow> SyncQueueItem \<Rightarrow> world \<Rightarrow> js_error option \<times> world" where
  \<comment> \<open>the inner \<open>try\<close> block of the drain loop, with the error it throws, if any\<close>
  "process_item e item w =
     (if action item = Delete \<and> taskId item \<noteq> [] then
        (if use_mock_api e then (None, w)
         else
           (case fetch e \<lparr> req_method = ''DELETE'',
                            req_url = API_BASE_URL @ ''/tasks/'' @ taskId item,
                            req_body = None \<rparr> w of
              (FetchThrows err, w1) \<Rightarrow> (Some err, w1)
            | (FetchResponse ok statusText body, w1) \<Rightarrow>
                if \<not> ok then (Some (Error (''Failed to delete task: '' @ statusText)), w1)
                else (None, w1)))
      else (None, w))"

fun drain ::
  "env \<Rightarrow> SyncQueueItem list \<Rightarrow> SyncQueueItem list \<Rightarrow> world
     \<Rightarrow> SyncQueueItem list \<times> world" where
  "drain e [] remainingQueue w = (remainingQueue, w)"
| "drain e (item # queue) remainingQueue w =
     (case process_item e item w of
        (None, w1) \<Rightarrow> drain e queue remainingQueue w1
      | (Some err, w1) \<Rightarrow>
          if is_queue_connectivity_error err then drain e queue (remainingQueue @ [item]) w1
          else drain e queue (remainingQueue @ [item]) w1)"

definition processSyncQueue :: "env \<Rightarrow> world \<Rightarrow> world" where
  "processSyncQueue e w =
     (if \<not> isOnline w then w
      else case sync_queue w of
             None \<Rightarrow> w
           | Some queue \<Rightarrow>
               (let (remainingQueue, w1) = drain e queue [] w
                in if length remainingQueue > 0
                   then w1 \<lparr> sync_queue := Some remainingQueue \<rparr>
                   else w1 \<lparr> sync_queue := None \<rparr>))"

definition addToQueue :: "SyncQueueItem \<Rightarrow> world \<Rightarrow> world" where
  "addToQueue item w =
     (let queue = (case sync_queue w of None \<Rightarrow> [] | Some q \<Rightarrow> q)
      in w \<lparr> sync_queue := Some (queue @ [item]) \<rparr>)"

definition eligible :: "TaskData \<Rightarrow> bool" where
  "eligible task = (sync_status task = pending_sync \<or> sync_status task = syncing)"

fun sync_tasks :: "env \<Rightarrow> TaskData list \<Rightarrow> world \<Rightarrow> world" where
  \<comment> \<open>the \<open>for\<close> loop of \<open>syncAll\<close> over the fetched adapters\<close>
  "sync_tasks e [] w = w"
| "sync_tasks e (task # rest) w =
     sync_tasks e rest (if eligible task then snd (syncTask e task w) else w)"

definition syncAll :: "env \<Rightarrow> world \<Rightarrow> world" where
  "syncAll e w =
     (if isSyncing w \<or> \<not> isOnline w then w
      else
        (let w1 = notifyListeners (w \<lparr> isSyncing := True \<rparr>);
             w2 = sync_tasks e (database_fetch (tasks w1)) w1;
             w3 = processSyncQueue e w2
         in notifyListeners (w3 \<lparr> isSyncing := False \<rparr>)))"

definition onNetworkChange :: "env \<Rightarrow> bool \<Rightarrow> world \<Rightarrow> world" where
  \<comment> \<open>the NetInfo event listener\<close>
  "onNetworkChange e isConnected w =
     (let wasOnline = isOnline w;
          w1 = notifyListeners (w \<lparr> isOnline := isConnected \<rparr>)
      in if \<not> wasOnline \<and> isOnline w1 then syncAll e w1 else w1)"

section \<open>The screens that write tasks (TaskForm.tsx, TaskList.tsx, task-detail.tsx)\<close>

text \<open>
  Only the handlers' effect on the store, the queue and the engine is modelled. A handler
  works on the adapter its screen loaded earlier, which may be older than the row. The
  call of \<open>syncAll\<close> that ends a handler is not awaited by the source; here it runs to its
  end before the next action.
\<close>

definition is_space :: "char \<Rightarrow> bool" where
  "is_space c = (of_char c \<in> {9, 10, 11, 12, 13, 32, 160 :: nat})"

definition trim :: "string \<Rightarrow> string" where
  "trim s = rev (dropWhile is_space (rev (dropWhile is_space s)))"

record create_form =
  c_title :: string
  c_description :: string
  c_price :: "real option"
  c_address :: string
  c_imageUris :: "jsstring list"
  c_expiresAt :: "int option"

definition create_initializer :: "create_form \<Rightarrow> int \<Rightarrow> TaskData \<Rightarrow> TaskData" where
  "create_initializer f now task =
     (let t1 = task \<lparr> title := trim (c_title f),
                  description :=
                    (if trim (c_description f) \<noteq> [] then Val (trim (c_description f))
                     else Undefined),
                  status := pending, sync_status := pending_sync, updated_at := now \<rparr>;
          t2 = (case c_price f of Some p \<Rightarrow> t1 \<lparr> price := Val p \<rparr> | None \<Rightarrow> t1);
          t3 = (if trim (c_address f) \<noteq> []
                then set_location
                       (Val \<lparr> lat = 19.4326, lng = - 99.1332, address = trim (c_address f) \<rparr>) t2
                else t2);
          t4 = (if length (c_imageUris f) > 0 then set_imageUrl (SetArray (c_imageUris f)) t3
                else t3)
      in case c_expiresAt f of Some x \<Rightarrow> t4 \<lparr> expires_at := Val x \<rparr> | None \<Rightarrow> t4)"

definition handleCreateTask :: "env \<Rightarrow> create_form \<Rightarrow> string \<Rightarrow> world \<Rightarrow> world" where
  "handleCreateTask e f uuid w =
     (if trim (c_title f) = [] then w
      else
        (let (now, w1) = date_now e w;
             (stamp, w2) = date_now e w1
         in case database_create uuid now (create_initializer f stamp) (tasks w2) of
              (Inl err, rows') \<Rightarrow> w2 \<lparr> tasks := rows' \<rparr>
            | (Inr created, rows') \<Rightarrow>
                (let w3 = w2 \<lparr> tasks := rows' \<rparr>
                 in if isOnline w3 then syncAll e w3 else w3)))"

definition handleStatusChange :: "env \<Rightarrow> TaskData \<Rightarrow> TaskStatus \<Rightarrow> world \<Rightarrow> world" where
  "handleStatusChange e task newStatus w =
     (let (t1, w1) = timed e (updateStatus newStatus) task w
      in if isOnline w1 then syncAll e w1 else w1)"

record edit_form =
  e_title :: string
  e_description :: string
  e_currentStatus :: TaskStatus
  e_imageUris :: "jsstring list"
  e_location :: "TaskLocation option"

definition edit_updater :: "edit_form \<Rightarrow> int \<Rightarrow> TaskData \<Rightarrow> TaskData" where
  "edit_updater f now t =
     (let t1 = t \<lparr> title := trim (e_title f),
                   description :=
                     (if trim (e_description f) \<noteq> [] then Val (trim (e_description f))
                      else Undefined),
                   status := e_currentStatus f \<rparr>;
          t2 = set_imageUrl (if length (e_imageUris f) > 0 then SetArray (e_imageUris f)
                             else SetOther Null) t1;
          t3 = (case e_location f of
                  Some l \<Rightarrow>
                    if address l \<noteq> [] \<and> trim (address l) \<noteq> [] then set_location (Val l) t2
                    else if lat l \<noteq> 0 \<or> lng l \<noteq> 0 then set_location (Val l) t2
                    else set_location Undefined t2
                | None \<Rightarrow> set_location Undefined t2);
          t4 = t3 \<lparr> updated_at := now \<rparr>
      in if sync_status t4 = synced then t4 \<lparr> sync_status := pending_sync \<rparr> else t4)"

definition saveEdit :: "env \<Rightarrow> edit_form \<Rightarrow> TaskData \<Rightarrow> world \<Rightarrow> TaskData \<times> world" where
  \<comment> \<open>the \<open>database.write\<close> block of \<open>handleUpdate\<close>\<close>
  "saveEdit e f task w = timed e (\<lambda>now. update (edit_updater f now)) task w"

definition handleUpdate :: "env \<Rightarrow> edit_form \<Rightarrow> TaskData \<Rightarrow> world \<Rightarrow> TaskData \<times> world" where
  \<comment> \<open>returns the adapter the screen holds afterwards\<close>
  "handleUpdate e f task w =
     (if trim (e_title f) = [] then (task, w)
      else
        (let (t1, w1) = saveEdit e f task w;
             loaded = (case database_find (data_id task) (tasks w1) of
                         Inr foundTask \<Rightarrow> foundTask
                       | Inl err \<Rightarrow> t1)
         in (loaded, if isOnline w1 then syncAll e w1 else w1)))"

definition handleDelete :: "env \<Rightarrow> TaskData \<Rightarrow> world \<Rightarrow> world" where
  \<comment> \<open>the confirmed \<open>Delete\<close> button\<close>
  "handleDelete e task w =
     (let w1 = w \<lparr> tasks := destroyPermanently task (tasks w) \<rparr>
      in if truthy_str (server_id task) then
           (let (now, w2) = date_now e w1
            in addToQueue \<lparr> taskId = template (server_id task), action = Delete,
                            data = Undefined, timestamp = now \<rparr> w2)
         else w1)"

section \<open>The application as a transition system\<close>

text \<open>
  One action is one handler run to its end. An action on a task carries the adapter the
  screen holds; any adapter is admitted, which covers every copy of a row a screen may
  have kept while the row changed underneath.
\<close>

datatype user_action =
    CreateTask create_form string
  | ChangeStatus TaskData TaskStatus
  | SaveEdit edit_form TaskData
  | DeleteTask TaskData
  | NetworkChange bool
  | SyncAll

fun step :: "env \<Rightarrow> user_action \<Rightarrow> world \<Rightarrow> world" where
  "step e (CreateTask f uuid) w = handleCreateTask e f uuid w"
| "step e (ChangeStatus task newStatus) w = handleStatusChange e task newStatus w"
| "step e (SaveEdit f task) w = snd (handleUpdate e f task w)"
| "step e (DeleteTask task) w = handleDelete e task w"
| "step e (NetworkChange c) w = onNetworkChange e c w"
| "step e SyncAll w = syncAll e w"

fun run :: "env \<Rightarrow> user_action list \<Rightarrow> world \<Rightarrow> world" where
  "run e [] w = w"
| "run e (a # as) w = run e as (step e a w)"

definition initial_world :: world where
  "initial_world = \<lparr> isOnline = False, isSyncing = False, tasks = [], sync_queue = None,
     mockTasks = Map.empty, nextId = 1, tick = 0, notified = 0, attempts = [],
     remote_log = [] \<rparr>"

section \<open>Observations and sample data used by the properties\<close>

text \<open>
  \<open>resolved\<close> is the adapter \<open>handleConflict\<close> leaves behind, \<open>resolved_rows\<close> the rows
  of the table under the adapter's id afterwards.
\<close>

definition resolved :: "env \<Rightarrow> TaskData \<Rightarrow> TaskStatus \<Rightarrow> world \<Rightarrow> TaskData" where
  "resolved e task serverStatus w = fst (snd (handleConflict e task serverStatus w))"

definition resolved_rows :: "env \<Rightarrow> TaskData \<Rightarrow> TaskStatus \<Rightarrow> world \<Rightarrow> TaskData list" where
  "resolved_rows e task serverStatus w =
     filter (\<lambda>r. data_id r = data_id task)
       (tasks (snd (snd (handleConflict e task serverStatus w))))"

text \<open>
  A task that was synchronised once, an HTTP server that answers every request with one
  fixed status, and a world that is online and holds the given rows.
\<close>

definition example_task :: "TaskStatus \<Rightarrow> TaskData" where
  "example_task st = \<lparr> data_id = ''task_a'', title = ''Audit 1'', description = Null,
     status = st, sync_status = pending_sync, server_id = Val ''srv_1'',
     server_status = Val in_progress, conflict_resolution = Null, created_at = 1000,
     updated_at = 2000, synced_at = Val 1500, price = Null, location_lat = Null,
     location_lng = Null, location_address = Null, image_url = Null, expires_at = Null \<rparr>"

definition http_env :: "TaskStatus \<Rightarrow> env" where
  "http_env st = \<lparr> use_mock_api = False, clock = (\<lambda>n. 5000 + int n),
     net = (\<lambda>n req. FetchResponse True ''OK''
                       (Inr (Some \<lparr> resp_id = ''srv_1'', resp_status = st \<rparr>))) \<rparr>"

definition example_world :: "TaskData list \<Rightarrow> world" where
  "example_world rows = initial_world \<lparr> isOnline := True, tasks := rows \<rparr>"

text \<open>
  The configuration the repository ships: \<open>USE_MOCK_API\<close> as the source sets it, with
  any clock and any network.
\<close>

definition shipped :: "(nat \<Rightarrow> int) \<Rightarrow> (nat \<Rightarrow> http_request \<Rightarrow> fetch_result) \<Rightarrow> env" where
  "shipped c n = \<lparr> use_mock_api = USE_MOCK_API, clock = c, net = n \<rparr>"

definition example_queue :: "SyncQueueItem list" where
  "example_queue =
     [\<lparr> taskId = ''srv_1'', action = Delete, data = Undefined, timestamp = 100 \<rparr>,
      \<lparr> taskId = ''srv_2'', action = Update, data = Undefined, timestamp = 200 \<rparr>,
      \<lparr> taskId = ''srv_3'', action = Delete, data = Undefined, timestamp = 300 \<rparr>]"

definition example_edit :: edit_form where
  "example_edit = \<lparr> e_title = '' Audit 2 '', e_description = [], e_currentStatus = in_progress,
     e_imageUris = [], e_location = None \<rparr>"

text \<open>
  The invariant of the store: a task marked \<open>synced\<close> has a server id and a time of
  synchronisation. \<open>good_env\<close> says what the invariant needs from outside: the clock
  never reads 0 (a reading of 0 is stored as NULL), and a create response of the HTTP
  interface carries a non-empty id (the mock API's ids are never empty).
\<close>

definition synced_ok :: "TaskData \<Rightarrow> bool" where
  "synced_ok t =
     (sync_status t = synced \<longrightarrow> truthy_str (server_id t) \<and> syncedAt t \<noteq> Undefined)"

definition rows_ok :: "TaskData list \<Rightarrow> bool" where
  "rows_ok rows = (\<forall>r \<in> set rows. synced_ok r)"

definition good_env :: "env \<Rightarrow> bool" where
  "good_env e =
     ((\<forall>n. clock e n \<noteq> 0)
      \<and> (use_mock_api e
         \<or> (\<forall>n req ok txt r. net e n req = FetchResponse ok txt (Inr (Some r))
               \<longrightarrow> resp_id r \<noteq> [])))"

text \<open>
  Devices for the proofs. \<open>engine_frame\<close>: the fields a per-task step leaves alone.
  \<open>sync_step\<close>: a step that does so and keeps the invariant of the table. \<open>remote_only\<close>:
  a step that changes nothing but the remote's side of the world. \<open>create_and_mark\<close>: the
  create-then-mark fragment that \<open>syncTask\<close> contains twice.
\<close>

definition engine_frame :: "world \<Rightarrow> world \<Rightarrow> bool" where
  "engine_frame w w' =
     (isOnline w' = isOnline w \<and> isSyncing w' = isSyncing w \<and> sync_queue w' = sync_queue w
      \<and> notified w' = notified w \<and> attempts w' = attempts w)"

definition sync_step :: "env \<Rightarrow> world \<Rightarrow> world \<Rightarrow> bool" where
  "sync_step e w w' =
     (engine_frame w w' \<and> (good_env e \<longrightarrow> rows_ok (tasks w) \<longrightarrow> rows_ok (tasks w')))"

definition remote_only :: "world \<Rightarrow> world \<Rightarrow> bool" where
  "remote_only w w' =
     (\<exists>k mt nid lg. w' = w \<lparr> mockTasks := mt, nextId := nid, tick := k, remote_log := lg \<rparr>)"

definition create_and_mark ::
  "env \<Rightarrow> TaskData \<Rightarrow> world \<Rightarrow> js_error option \<times> TaskData \<times> world" where
  "create_and_mark e t1 w1 =
     (case createTaskOnServer e t1 w1 of
        (Inl err, w2) \<Rightarrow> (Some err, t1, w2)
      | (Inr None, w2) \<Rightarrow> (None, t1, w2)
      | (Inr (Some response), w2) \<Rightarrow>
          (let (t2, w3) =
                 timed e (markAsSynced (Val (resp_id response))
                            (Val (resp_status response))) t1 w2
           in (None, t2, w3)))"


text \<open>
  \<open>syncTask_thrown\<close> is the error the \<open>try\<close> block of \<open>syncTask\<close> throws, if any.
  \<open>failing_env\<close> is an HTTP server that answers every request with status 500;
  \<open>new_task\<close> is a task that was never synchronised.
\<close>

definition syncTask_thrown :: "env \<Rightarrow> TaskData \<Rightarrow> world \<Rightarrow> js_error option" where
  "syncTask_thrown e task w =
     fst (syncTask_try e task (w \<lparr> attempts := attempts w @ [data_id task] \<rparr>))"

definition failing_env :: env where
  "failing_env = \<lparr> use_mock_api = False, clock = (\<lambda>n. 5000 + int n),
     net = (\<lambda>n req. FetchResponse False ''Internal Server Error'' (Inr None)) \<rparr>"

definition new_task :: "string \<Rightarrow> int \<Rightarrow> TaskData" where
  "new_task i t = \<lparr> data_id = i, title = ''Audit 1'', description = Null,
     status = pending, sync_status = pending_sync, server_id = Null,
     server_status = Null, conflict_resolution = Null, created_at = t,
     updated_at = t, synced_at = Null, price = Null, location_lat = Null,
     location_lng = Null, location_address = Null, image_url = Null, expires_at = Null \<rparr>"


definition example_form :: create_form where
  "example_form = \<lparr> c_title = ''Audit 1'', c_description = [], c_price = None,
     c_address = [], c_imageUris = [], c_expiresAt = None \<rparr>"

definition shipped_env :: env where
  "shipped_env = shipped (\<lambda>n. 5000 + int n)
     (\<lambda>n req. FetchThrows \<lparr> err_name = ''TypeError'', err_message = ''Network request failed'' \<rparr>)"

text \<open>
  For the drain: \<open>outcomes\<close> lists, item by item, the error the processing of the item
  throws (or \<open>None\<close>), each item run in the world its predecessors left; \<open>retained\<close> is
  the set of positions whose processing threw; \<open>queue_items\<close> reads the persisted queue,
  an absent key being the empty queue. \<open>flaky_env\<close> is an HTTP server that cannot be
  reached for one of the ids.
\<close>

fun outcomes :: "env \<Rightarrow> SyncQueueItem list \<Rightarrow> world \<Rightarrow> js_error option list" where
  "outcomes e [] w = []"
| "outcomes e (item # queue) w =
     fst (process_item e item w) # outcomes e queue (snd (process_item e item w))"

definition retained :: "env \<Rightarrow> SyncQueueItem list \<Rightarrow> world \<Rightarrow> nat set" where
  "retained e queue w = {i. i < length queue \<and> outcomes e queue w ! i \<noteq> None}"

definition queue_items :: "world \<Rightarrow> SyncQueueItem list" where
  "queue_items w = (case sync_queue w of None \<Rightarrow> [] | Some q \<Rightarrow> q)"

definition network_failure :: js_error where
  "network_failure = \<lparr> err_name = ''TypeError'', err_message = ''Network request failed'' \<rparr>"

definition flaky_env :: env where
  "flaky_env = \<lparr> use_mock_api = False, clock = (\<lambda>n. 5000 + int n),
     net = (\<lambda>n req. if req_url req = ''https://api.example.com/tasks/srv_3''
                      then FetchThrows network_failure
                      else FetchResponse True ''OK'' (Inr None)) \<rparr>"

definition mixed_queue :: "SyncQueueItem list" where
  "mixed_queue =
     [\<lparr> taskId = ''srv_3'', action = Delete, data = Undefined, timestamp = 100 \<rparr>,
      \<lparr> taskId = ''srv_1'', action = Delete, data = Undefined, timestamp = 200 \<rparr>,
      \<lparr> taskId = ''srv_2'', action = Update, data = Undefined, timestamp = 300 \<rparr>,
      \<lparr> taskId = ''srv_3'', action = Delete, data = Undefined, timestamp = 400 \<rparr>]"

text \<open>Two forms that carry two image references.\<close>

definition photo_form :: create_form where
  "photo_form = \<lparr> c_title = ''Shelf 3'', c_description = [], c_price = None,
     c_address = [], c_imageUris = [js ''file:///a.jpg'', js ''b.png''],
     c_expiresAt = None \<rparr>"

definition photo_edit :: edit_form where
  "photo_edit = \<lparr> e_title = ''Audit 2'', e_description = [], e_currentStatus = in_progress,
     e_imageUris = [js ''file:///a.jpg'', js ''b.png''], e_location = None \<rparr>"

section \<open>Properties\<close>

subsection \<open>Reading rows and updates\<close>

lemma no_updates_fields [simp]:
  "u_title no_updates = None" "u_description no_updates = Undefined"
  "u_status no_updates = None" "u_sync_status no_updates = None"
  "u_server_id no_updates = Undefined" "u_server_status no_updates = Undefined"
  "u_conflict_resolution no_updates = Undefined" "u_updated_at no_updates = None"
  "u_synced_at no_updates = Undefined" "u_price no_updates = Undefined"
  "u_location_lat no_updates = Undefined" "u_location_lng no_updates = Undefined"
  "u_location_address no_updates = Undefined" "u_image_url no_updates = Undefined"
  "u_expires_at no_updates = Undefined"
  by (simp_all add: no_updates_def)

lemma data_id_apply_updates [simp]: "data_id (apply_updates u r) = data_id r"
  by (simp add: apply_updates_def)

lemma status_apply_updates [simp]:
  "status (apply_updates u r) = set_req (u_status u) (status r)"
  by (simp add: apply_updates_def)

lemma sync_status_apply_updates [simp]:
  "sync_status (apply_updates u r) = set_req (u_sync_status u) (sync_status r)"
  by (simp add: apply_updates_def)

lemma conflict_resolution_apply_updates [simp]:
  "conflict_resolution (apply_updates u r) =
     set_opt or_null_val (u_conflict_resolution u) (conflict_resolution r)"
  by (simp add: apply_updates_def)

lemma updateTask_map:
  "u_sync_status u = Some s \<Longrightarrow>
   updateTask i u rows = map (\<lambda>r. if data_id r = i then apply_updates u r else r) rows"
  by (auto simp: updateTask_def no_updates_def)

lemma tasks_date_now [simp]: "tasks (snd (date_now e w)) = tasks w"
  by (simp add: date_now_def)

lemma tasks_fetch [simp]: "tasks (snd (fetch e req w)) = tasks w"
  by (simp add: fetch_def)

lemma tasks_createTaskOnServer [simp]: "tasks (snd (createTaskOnServer e t w)) = tasks w"
  by (auto simp: createTaskOnServer_def mockApi_createTask_def date_now_def fetch_def Let_def
           split: prod.splits fetch_result.splits sum.splits)

lemma tasks_updateTaskOnServer [simp]: "tasks (snd (updateTaskOnServer e t w)) = tasks w"
  by (auto simp: updateTaskOnServer_def mockApi_updateTask_def date_now_def fetch_def Let_def
           split: prod.splits fetch_result.splits sum.splits option.splits)

lemma updateTaskOnServer_tasks:
  "updateTaskOnServer e t w = (x, w') \<Longrightarrow> tasks w' = tasks w"
  using tasks_updateTaskOnServer [of e t w] by simp

lemma createTaskOnServer_tasks:
  "createTaskOnServer e t w = (x, w') \<Longrightarrow> tasks w' = tasks w"
  using tasks_createTaskOnServer [of e t w] by simp

lemma timed_resolveConflict:
  "timed e (resolveConflict res (Val fs)) task w =
     (task \<lparr> conflict_resolution := Val res, status := fs, sync_status := pending_sync,
             updated_at := clock e (tick w) \<rparr>,
      w \<lparr> tick := Suc (tick w),
          tasks := updateTask (data_id task)
             (no_updates \<lparr> u_conflict_resolution := Val res, u_status := Some fs,
                u_sync_status := Some pending_sync,
                u_updated_at := Some (clock e (tick w)) \<rparr>) (tasks w) \<rparr>)"
  by (simp add: timed_def resolveConflict_def on_table_def date_now_def Let_def)

lemma timed_markAsSynced:
  "timed e (markAsSynced sid (Val sst)) task w =
     (task \<lparr> sync_status := synced, synced_at := Val (clock e (tick w)),
             server_id := (if truthy_str sid then sid else server_id task),
             server_status := Val sst \<rparr>,
      w \<lparr> tick := Suc (tick w),
          tasks := updateTask (data_id task)
             (no_updates \<lparr> u_sync_status := Some synced,
                u_synced_at := Val (clock e (tick w)),
                u_server_id := (if truthy_str sid then sid else server_id task),
                u_server_status := Val sst \<rparr>) (tasks w) \<rparr>)"
  by (simp add: timed_def markAsSynced_def on_table_def date_now_def Let_def truthy_val_def)

text \<open>Unfolding everything the sample runs go through.\<close>

lemmas sample_defs = example_task_def http_env_def example_world_def initial_world_def
  resolved_def resolved_rows_def handleConflict_def conflict_table_def timed_def on_table_def
  date_now_def resolveConflict_def markAsSynced_def markAsSyncing_def updateTask_def
  apply_updates_def no_updates_def set_req_def set_opt_def or_null_str_def or_null_num_def
  or_null_val_def truthy_str_def truthy_num_def truthy_val_def updateTaskOnServer_def
  createTaskOnServer_def fetch_def rethrow_unless_network_def is_network_error_def
  template_def API_BASE_URL_def Error_def

subsection \<open>The conflict policy\<close>

lemma handleConflict_records:
  "conflict_resolution (resolved e task s w) = Val (fst (conflict_table (status task) s))
   \<and> status (resolved e task s w) = snd (conflict_table (status task) s)"
  by (auto simp: resolved_def handleConflict_def timed_resolveConflict timed_markAsSynced Let_def
      split: prod.splits sum.splits)

lemma handleConflict_rows:
  "r \<in> set (resolved_rows e task s w) \<Longrightarrow>
   conflict_resolution r = Val (fst (conflict_table (status task) s))
   \<and> status r = snd (conflict_table (status task) s)"
  by (auto simp: resolved_rows_def handleConflict_def timed_resolveConflict timed_markAsSynced
      Let_def updateTask_map set_req_def set_opt_def or_null_val_def truthy_val_def
      dest!: updateTaskOnServer_tasks
      split: prod.splits sum.splits if_splits)

text \<open>
  Claim C2. What \<open>handleConflict\<close> records is a function of the pair (local status,
  server status) alone: local \<open>done\<close> against server \<open>cancelled\<close> records \<open>client_wins\<close>
  and leaves the status \<open>done\<close>; local \<open>cancelled\<close> against server \<open>done\<close> records
  \<open>server_wins\<close> and sets the status to \<open>done\<close>; every other pair of different statuses
  records \<open>manual\<close> and leaves the local status as it was. The row in the table gets the
  same resolution and status as the adapter.
\<close>

theorem conflict_policy:
  "(status task = done \<and> serverStatus = cancelled \<longrightarrow>
      conflict_resolution (resolved e task serverStatus w) = Val client_wins
      \<and> status (resolved e task serverStatus w) = done)
   \<and> (status task = cancelled \<and> serverStatus = done \<longrightarrow>
      conflict_resolution (resolved e task serverStatus w) = Val server_wins
      \<and> status (resolved e task serverStatus w) = done)
   \<and> (status task \<noteq> serverStatus
      \<and> \<not> (status task = done \<and> serverStatus = cancelled)
      \<and> \<not> (status task = cancelled \<and> serverStatus = done) \<longrightarrow>
      conflict_resolution (resolved e task serverStatus w) = Val manual
      \<and> status (resolved e task serverStatus w) = status task)
   \<and> (\<forall>r \<in> set (resolved_rows e task serverStatus w).
        conflict_resolution r = conflict_resolution (resolved e task serverStatus w)
        \<and> status r = status (resolved e task serverStatus w))"
  using handleConflict_records [of e task serverStatus w]
    handleConflict_rows [of _ e task serverStatus w]
  by (auto simp: conflict_table_def)

theorem conflict_policy_witness:
  "(status (example_task done) = done
    \<and> conflict_resolution (resolved (http_env cancelled) (example_task done) cancelled
         (example_world [example_task done])) = Val client_wins
    \<and> map status (resolved_rows (http_env cancelled) (example_task done) cancelled
         (example_world [example_task done])) = [done])
   \<and> (status (example_task cancelled) = cancelled
    \<and> conflict_resolution (resolved (http_env done) (example_task cancelled) done
         (example_world [example_task cancelled])) = Val server_wins
    \<and> map status (resolved_rows (http_env done) (example_task cancelled) done
         (example_world [example_task cancelled])) = [done])
   \<and> (status (example_task pending) \<noteq> done
    \<and> conflict_resolution (resolved (http_env done) (example_task pending) done
         (example_world [example_task pending])) = Val manual
    \<and> map status (resolved_rows (http_env done) (example_task pending) done
         (example_world [example_task pending])) = [pending])"
proof -
  have rows: "resolved_rows (http_env st) (example_task l) st (example_world [example_task l])
      \<noteq> []" for st l
    by (simp add: sample_defs Let_def)
  have one: "length (resolved_rows (http_env st) (example_task l) st
      (example_world [example_task l])) = 1" for st l
    by (simp add: sample_defs Let_def)
  have single: "length xs = 1 \<Longrightarrow> \<forall>r \<in> set xs. status r = v \<Longrightarrow> map status xs = [v]"
    for xs :: "TaskData list" and v
    by (cases xs) auto
  have a: "status (example_task l) = l" for l
    by (simp add: example_task_def)
  show ?thesis
    using conflict_policy [of "example_task done" cancelled "http_env cancelled"
        "example_world [example_task done]"]
      conflict_policy [of "example_task cancelled" "done" "http_env done"
        "example_world [example_task cancelled]"]
      conflict_policy [of "example_task pending" "done" "http_env done"
        "example_world [example_task pending]"]
    by (simp add: a single [OF one])
qed

lemmas run_defs = syncAll_def syncTask_def syncTask_try_def processSyncQueue_def
  database_fetch_def getAllTasks_def notifyListeners_def eligible_def update_def all_fields_def

subsection \<open>A conflict resolved as \<open>manual\<close>\<close>

text \<open>
  Claim C1: after a conflict resolved as \<open>manual\<close> the task is marked \<open>synced\<close>, with
  the resolution recorded as \<open>manual\<close>, and later passes do not retry it. The code does
  not do that. \<open>resolveConflict\<close> sets \<open>pending_sync\<close> for every resolution, and the
  chain that follows it in \<open>handleConflict\<close> calls \<open>markAsSynced\<close> for \<open>client_wins\<close>
  and for \<open>server_wins\<close> and has no branch for \<open>manual\<close>. Take a task with local status
  \<open>pending\<close>, last known server status \<open>in_progress\<close>, and a server that answers
  \<open>done\<close>. The resolution is \<open>manual\<close>; the adapter and its row are left
  \<open>pending_sync\<close>, also at the end of a whole \<open>syncAll\<close>; the next \<open>syncAll\<close> enters
  \<open>syncTask\<close> for the task again, sends the same update to the server again and moves
  \<open>updatedAt\<close> from 5001 to 5003. On the same world the two other resolutions end
  \<open>synced\<close>.
\<close>

theorem manual_conflict_left_pending:
  "conflict_table (status (example_task pending)) done = (manual, pending)
   \<and> sync_status (resolved (http_env done) (example_task pending) done
        (example_world [example_task pending])) \<noteq> synced
   \<and> sync_status (resolved (http_env done) (example_task pending) done
        (example_world [example_task pending])) = pending_sync
   \<and> map sync_status (resolved_rows (http_env done) (example_task pending) done
        (example_world [example_task pending])) = [pending_sync]
   \<and> map sync_status (tasks (syncAll (http_env done) (example_world [example_task pending])))
        = [pending_sync]
   \<and> map conflict_resolution
        (tasks (syncAll (http_env done) (example_world [example_task pending]))) = [Val manual]
   \<and> map updated_at
        (tasks (syncAll (http_env done) (example_world [example_task pending]))) = [5001]
   \<and> attempts (syncAll (http_env done)
        (syncAll (http_env done) (example_world [example_task pending])))
        = [''task_a'', ''task_a'']
   \<and> remote_log (syncAll (http_env done)
        (syncAll (http_env done) (example_world [example_task pending])))
        = [HttpFetch \<lparr> req_method = ''PUT'', req_url = ''https://api.example.com/tasks/srv_1'',
                        req_body = Some (''Audit 1'', Null, pending) \<rparr>,
           HttpFetch \<lparr> req_method = ''PUT'', req_url = ''https://api.example.com/tasks/srv_1'',
                        req_body = Some (''Audit 1'', Null, pending) \<rparr>]
   \<and> map sync_status (tasks (syncAll (http_env done)
        (syncAll (http_env done) (example_world [example_task pending])))) = [pending_sync]
   \<and> map updated_at (tasks (syncAll (http_env done)
        (syncAll (http_env done) (example_world [example_task pending])))) = [5003]
   \<and> sync_status (resolved (http_env done) (example_task cancelled) done
        (example_world [example_task cancelled])) = synced
   \<and> sync_status (resolved (http_env cancelled) (example_task done) cancelled
        (example_world [example_task done])) = synced"
  by (simp add: sample_defs run_defs Let_def)

text \<open>
  The same for every task, world and environment: when the resolution is \<open>manual\<close>,
  \<open>handleConflict\<close> returns without a throw and without a remote call, and the adapter
  and its row keep the \<open>pending_sync\<close> that \<open>resolveConflict\<close> wrote, which makes the
  task eligible for the next pass.
\<close>

lemma handleConflict_manual:
  "fst (conflict_table (status task) serverStatus) = manual \<Longrightarrow>
   fst (handleConflict e task serverStatus w) = None
   \<and> resolved e task serverStatus w =
       task \<lparr> conflict_resolution := Val manual, sync_status := pending_sync,
              updated_at := clock e (tick w) \<rparr>
   \<and> (\<forall>r \<in> set (resolved_rows e task serverStatus w).
         sync_status r = pending_sync \<and> status r = status task
         \<and> conflict_resolution r = Val manual \<and> updated_at r = clock e (tick w))
   \<and> remote_log (snd (snd (handleConflict e task serverStatus w))) = remote_log w
   \<and> eligible (resolved e task serverStatus w)"
  by (auto simp: resolved_def resolved_rows_def handleConflict_def timed_resolveConflict
      conflict_table_def eligible_def updateTask_map apply_updates_def set_req_def set_opt_def
      or_null_val_def truthy_val_def Let_def split: if_splits)

subsection \<open>The guard of \<open>syncAll\<close>\<close>

text \<open>
  Claim C4. A call of \<open>syncAll\<close> while the syncing flag is set, or while offline, returns
  at once: the world is unchanged, so no remote call is made, no task is entered, and
  every row and the persisted queue stay as they were.
\<close>

theorem syncAll_guard:
  "isSyncing w \<or> \<not> isOnline w \<Longrightarrow>
   syncAll e w = w
   \<and> remote_log (syncAll e w) = remote_log w
   \<and> attempts (syncAll e w) = attempts w
   \<and> tasks (syncAll e w) = tasks w
   \<and> sync_queue (syncAll e w) = sync_queue w"
  by (simp add: syncAll_def)

theorem syncAll_guard_witness:
  "(isSyncing initial_world \<or> \<not> isOnline initial_world)
   \<and> syncAll (http_env done) initial_world = initial_world
   \<and> (isSyncing (example_world [example_task pending] \<lparr> isSyncing := True \<rparr>)
       \<or> \<not> isOnline (example_world [example_task pending] \<lparr> isSyncing := True \<rparr>))
   \<and> tasks (syncAll (http_env done) (example_world [example_task pending] \<lparr> isSyncing := True \<rparr>))
       = [example_task pending]"
proof -
  have a: "isSyncing initial_world \<or> \<not> isOnline initial_world"
    by (simp add: initial_world_def)
  have b: "isSyncing (example_world [example_task pending] \<lparr> isSyncing := True \<rparr>)
       \<or> \<not> isOnline (example_world [example_task pending] \<lparr> isSyncing := True \<rparr>)"
    by simp
  show ?thesis
    using a b syncAll_guard [OF a, of "http_env done"] syncAll_guard [OF b, of "http_env done"]
    by (simp add: example_world_def)
qed

subsection \<open>Draining the queue in the shipped configuration\<close>

lemma shipped_process_item: "process_item (shipped c n) item w = (None, w)"
  by (simp add: process_item_def shipped_def USE_MOCK_API_def)

lemma shipped_drain: "drain (shipped c n) queue acc w = (acc, w)"
  by (induction queue arbitrary: acc w) (simp_all add: shipped_process_item)

text \<open>
  Claim C10. With \<open>USE_MOCK_API\<close> as shipped, processing an item never throws and never
  reaches a remote: a \<open>delete\<close> item is skipped by \<open>continue\<close>, any other item is not
  looked at. A drain while online therefore retains nothing and removes the persisted
  queue, with the remote log and the mock API's store untouched: a queued deletion never
  reaches the remote.
\<close>

theorem shipped_drain_drops_deletions:
  "isOnline w \<Longrightarrow>
   processSyncQueue (shipped c n) w = w \<lparr> sync_queue := None \<rparr>
   \<and> process_item (shipped c n) item w = (None, w)
   \<and> remote_log (processSyncQueue (shipped c n) w) = remote_log w
   \<and> mockTasks (processSyncQueue (shipped c n) w) = mockTasks w"
  by (cases "sync_queue w") (simp_all add: processSyncQueue_def shipped_drain shipped_process_item)

theorem shipped_drain_drops_deletions_witness:
  "isOnline (example_world [] \<lparr> sync_queue := Some example_queue \<rparr>)
   \<and> sync_queue (processSyncQueue (shipped (\<lambda>n. 1) (\<lambda>n req. FetchThrows (Error ''unused'')))
        (example_world [] \<lparr> sync_queue := Some example_queue \<rparr>)) = None
   \<and> remote_log (processSyncQueue (shipped (\<lambda>n. 1) (\<lambda>n req. FetchThrows (Error ''unused'')))
        (example_world [] \<lparr> sync_queue := Some example_queue \<rparr>)) = []"
proof -
  have h: "isOnline (example_world [] \<lparr> sync_queue := Some example_queue \<rparr>)"
    by (simp add: example_world_def)
  show ?thesis
    using h shipped_drain_drops_deletions [OF h, of "\<lambda>n. 1" "\<lambda>n req. FetchThrows (Error ''unused'')"]
    by (simp add: example_world_def initial_world_def)
qed

subsection \<open>Deleting a task\<close>

text \<open>
  Claim C7. Deleting a task removes its row. When the task carries a server id, exactly
  one item is appended to the persisted queue, a \<open>delete\<close> of that server id stamped with
  the time of the deletion; without a server id the queue is left as it was.
\<close>

theorem delete_enqueues_once:
  "(server_id task = Val s \<and> s \<noteq> [] \<longrightarrow>
      sync_queue (handleDelete e task w) =
        Some ((case sync_queue w of None \<Rightarrow> [] | Some q \<Rightarrow> q)
              @ [\<lparr> taskId = s, action = Delete, data = Undefined,
                    timestamp = clock e (tick w) \<rparr>]))
   \<and> (\<not> truthy_str (server_id task) \<longrightarrow>
      sync_queue (handleDelete e task w) = sync_queue w)
   \<and> tasks (handleDelete e task w) = filter (\<lambda>r. data_id r \<noteq> data_id task) (tasks w)
   \<and> data_id task \<notin> data_id ` set (tasks (handleDelete e task w))"
  by (auto simp: handleDelete_def destroyPermanently_def deleteTask_def addToQueue_def
      date_now_def template_def truthy_str_def Let_def split: option.splits)


theorem delete_enqueues_once_witness:
  "(server_id (example_task pending) = Val ''srv_1'' \<and> ''srv_1'' \<noteq> []
    \<and> sync_queue (handleDelete (http_env done) (example_task pending)
          (example_world [example_task pending])) =
        Some [\<lparr> taskId = ''srv_1'', action = Delete, data = Undefined, timestamp = 5000 \<rparr>]
    \<and> tasks (handleDelete (http_env done) (example_task pending)
          (example_world [example_task pending])) = [])
   \<and> (\<not> truthy_str (server_id (example_task pending \<lparr> server_id := Null \<rparr>))
    \<and> sync_queue (handleDelete (http_env done) (example_task pending \<lparr> server_id := Null \<rparr>)
          (example_world [example_task pending \<lparr> server_id := Null \<rparr>])) = None
    \<and> tasks (handleDelete (http_env done) (example_task pending \<lparr> server_id := Null \<rparr>)
          (example_world [example_task pending \<lparr> server_id := Null \<rparr>])) = [])"
proof -
  have a: "server_id (example_task pending) = Val ''srv_1'' \<and> ''srv_1'' \<noteq> []"
    by (simp add: example_task_def)
  have b: "\<not> truthy_str (server_id (example_task pending \<lparr> server_id := Null \<rparr>))"
    by (simp add: truthy_str_def)
  show ?thesis
    using a b
      delete_enqueues_once [of "example_task pending" "''srv_1''" "http_env done"
        "example_world [example_task pending]"]
      delete_enqueues_once [of "example_task pending \<lparr> server_id := Null \<rparr>" "''srv_1''"
        "http_env done" "example_world [example_task pending \<lparr> server_id := Null \<rparr>]"]
    by (simp add: example_world_def initial_world_def http_env_def example_task_def)
qed

subsection \<open>Editing a task\<close>

lemma updated_at_apply_updates [simp]:
  "updated_at (apply_updates u r) = set_req (u_updated_at u) (updated_at r)"
  by (simp add: apply_updates_def)

lemma set_imageUrl_frame [simp]:
  "sync_status (set_imageUrl v t) = sync_status t"
  "updated_at (set_imageUrl v t) = updated_at t"
  "data_id (set_imageUrl v t) = data_id t"
  by (simp_all add: set_imageUrl_def split: image_input.splits)

lemma set_location_frame [simp]:
  "sync_status (set_location v t) = sync_status t"
  "updated_at (set_location v t) = updated_at t"
  "data_id (set_location v t) = data_id t"
  by (simp_all add: set_location_def split: js_opt.splits)

lemma edit_updater_fields:
  "sync_status (edit_updater f now t) =
     (if sync_status t = synced then pending_sync else sync_status t)"
  "updated_at (edit_updater f now t) = now"
  "data_id (edit_updater f now t) = data_id t"
  by (simp_all add: edit_updater_def Let_def split: option.splits)

lemma all_fields_sync [simp]:
  "u_sync_status (all_fields t) = Some (sync_status t)"
  "u_updated_at (all_fields t) = Some (updated_at t)"
  by (simp_all add: all_fields_def)

text \<open>
  Claim C6. A user edit, through \<open>updateStatus\<close> or through the edit screen's save, of a
  task whose sync status is \<open>synced\<close> or \<open>pending_sync\<close> leaves the task and its row
  \<open>pending_sync\<close> with \<open>updatedAt\<close> set to the time of the edit.
\<close>

theorem edit_resets_sync_status:
  "sync_status task = synced \<or> sync_status task = pending_sync \<Longrightarrow>
   sync_status (fst (updateStatus newStatus now task rows)) = pending_sync
   \<and> updated_at (fst (updateStatus newStatus now task rows)) = now
   \<and> (\<forall>r \<in> set (snd (updateStatus newStatus now task rows)).
        data_id r = data_id task \<longrightarrow> sync_status r = pending_sync \<and> updated_at r = now)
   \<and> sync_status (fst (saveEdit e f task w)) = pending_sync
   \<and> updated_at (fst (saveEdit e f task w)) = clock e (tick w)
   \<and> (\<forall>r \<in> set (tasks (snd (saveEdit e f task w))).
        data_id r = data_id task \<longrightarrow>
          sync_status r = pending_sync \<and> updated_at r = clock e (tick w))"
proof -
  assume st: "sync_status task = synced \<or> sync_status task = pending_sync"
  have us: "sync_status (fst (updateStatus newStatus now task rows)) = pending_sync
      \<and> updated_at (fst (updateStatus newStatus now task rows)) = now"
    using st by (auto simp: updateStatus_def Let_def)
  have ur: "\<forall>r \<in> set (snd (updateStatus newStatus now task rows)).
        data_id r = data_id task \<longrightarrow> sync_status r = pending_sync \<and> updated_at r = now"
    using st by (auto simp: updateStatus_def Let_def updateTask_map set_req_def)
  have es: "sync_status (fst (saveEdit e f task w)) = pending_sync
      \<and> updated_at (fst (saveEdit e f task w)) = clock e (tick w)"
    using st
    by (auto simp: saveEdit_def timed_def on_table_def date_now_def update_def Let_def
        edit_updater_fields)
  have er: "\<forall>r \<in> set (tasks (snd (saveEdit e f task w))).
        data_id r = data_id task \<longrightarrow>
          sync_status r = pending_sync \<and> updated_at r = clock e (tick w)"
    using st
    by (auto simp: saveEdit_def timed_def on_table_def date_now_def update_def Let_def
        edit_updater_fields updateTask_map set_req_def)
  show ?thesis using us ur es er by blast
qed

theorem edit_resets_sync_status_witness:
  "(sync_status (example_task pending \<lparr> sync_status := synced \<rparr>) = synced
     \<or> sync_status (example_task pending \<lparr> sync_status := synced \<rparr>) = pending_sync)
   \<and> map sync_status (snd (updateStatus done 7000
        (example_task pending \<lparr> sync_status := synced \<rparr>)
        [example_task pending \<lparr> sync_status := synced \<rparr>])) = [pending_sync]
   \<and> map sync_status (tasks (snd (saveEdit (http_env done) example_edit
        (example_task pending \<lparr> sync_status := synced \<rparr>)
        (example_world [example_task pending \<lparr> sync_status := synced \<rparr>])))) = [pending_sync]
   \<and> map updated_at (tasks (snd (saveEdit (http_env done) example_edit
        (example_task pending \<lparr> sync_status := synced \<rparr>)
        (example_world [example_task pending \<lparr> sync_status := synced \<rparr>])))) = [5000]"
proof -
  let ?t = "example_task pending \<lparr> sync_status := synced \<rparr>"
  let ?rows1 = "snd (updateStatus done 7000 ?t [?t])"
  let ?rows2 = "tasks (snd (saveEdit (http_env done) example_edit ?t (example_world [?t])))"
  have a: "sync_status ?t = synced \<or> sync_status ?t = pending_sync"
    by simp
  note inst = edit_resets_sync_status [OF a, of "done" 7000 "[?t]" "http_env done"
      example_edit "example_world [?t]"]
  have ids1: "map data_id ?rows1 = [data_id ?t]"
    by (simp add: updateStatus_def Let_def updateTask_map)
  have ids2: "map data_id ?rows2 = [data_id ?t]"
    by (simp add: saveEdit_def timed_def on_table_def date_now_def update_def Let_def
        updateTask_map example_world_def)
  have one: "map data_id xs = [i] \<Longrightarrow> \<forall>r \<in> set xs. data_id r = i \<longrightarrow> g r = v \<Longrightarrow> map g xs = [v]"
    for xs :: "TaskData list" and i v and g :: "TaskData \<Rightarrow> 'b"
    by (cases xs) auto
  have m1: "map sync_status ?rows1 = [pending_sync]"
    using inst by (intro one [OF ids1]) blast
  have m2: "map sync_status ?rows2 = [pending_sync]"
    using inst by (intro one [OF ids2]) blast
  have m3: "map updated_at ?rows2 = [clock (http_env done) (tick (example_world [?t]))]"
    using inst by (intro one [OF ids2]) blast
  have c: "clock (http_env done) (tick (example_world [?t])) = 5000"
    by (simp add: http_env_def example_world_def initial_world_def)
  show ?thesis using a m1 m2 m3 c by simp
qed

subsection \<open>Steps of the per-entity procedure\<close>

lemma sync_step_refl [simp]: "sync_step e w w"
  by (simp add: sync_step_def engine_frame_def)

lemma sync_step_trans: "sync_step e w w1 \<Longrightarrow> sync_step e w1 w2 \<Longrightarrow> sync_step e w w2"
  by (simp add: sync_step_def engine_frame_def)

lemma synced_at_apply_updates [simp]:
  "synced_at (apply_updates u r) = set_opt or_null_num (u_synced_at u) (synced_at r)"
  by (simp add: apply_updates_def)

lemma server_id_apply_updates [simp]:
  "server_id (apply_updates u r) = set_opt or_null_str (u_server_id u) (server_id r)"
  by (simp add: apply_updates_def)

lemma set_opt_truthy_str: "truthy_str v \<Longrightarrow> set_opt or_null_str v old = v"
  by (cases v) (simp_all add: set_opt_def or_null_str_def truthy_str_def)

lemma set_opt_truthy_num: "truthy_num v \<Longrightarrow> set_opt or_null_num v old = v"
  by (cases v) (simp_all add: set_opt_def or_null_num_def truthy_num_def)

lemma synced_ok_apply_updates:
  assumes "u_sync_status u = Some s"
    and "s = synced \<Longrightarrow> truthy_str (u_server_id u) \<and> truthy_num (u_synced_at u)"
  shows "synced_ok (apply_updates u r)"
proof (cases "s = synced")
  case True
  with assms(2) have "truthy_str (u_server_id u)" "truthy_num (u_synced_at u)" by simp_all
  then show ?thesis
    by (auto simp: synced_ok_def syncedAt_def set_opt_truthy_str set_opt_truthy_num
        truthy_num_def)
next
  case False
  with assms(1) show ?thesis by (simp add: synced_ok_def set_req_def)
qed

lemma rows_ok_updateTask:
  assumes "u_sync_status u = Some s"
    and "s = synced \<Longrightarrow> truthy_str (u_server_id u) \<and> truthy_num (u_synced_at u)"
    and "rows_ok rows"
  shows "rows_ok (updateTask i u rows)"
  using assms(3) synced_ok_apply_updates [OF assms(1,2)]
  by (auto simp: rows_ok_def updateTask_map [OF assms(1)])

lemma sync_step_tasks:
  assumes "good_env e \<Longrightarrow> rows_ok (tasks w) \<Longrightarrow> rows_ok rows'"
  shows "sync_step e w (w \<lparr> tick := k, tasks := rows' \<rparr>)"
    and "sync_step e w (w \<lparr> tasks := rows' \<rparr>)"
  using assms by (simp_all add: sync_step_def engine_frame_def)

lemma remote_only_refl: "remote_only w w"
proof -
  have "w = w \<lparr> mockTasks := mockTasks w, nextId := nextId w, tick := tick w,
      remote_log := remote_log w \<rparr>" by simp
  then show ?thesis unfolding remote_only_def by blast
qed

lemma remote_only_fetch: "remote_only w (snd (fetch e req w))"
proof -
  have "snd (fetch e req w) = w \<lparr> mockTasks := mockTasks w, nextId := nextId w,
      tick := Suc (tick w), remote_log := remote_log w @ [HttpFetch req] \<rparr>"
    by (simp add: fetch_def)
  then show ?thesis unfolding remote_only_def by blast
qed

lemma remote_only_mockApi_createTask: "remote_only w (snd (mockApi_createTask e d w))"
proof -
  have "snd (mockApi_createTask e d w) =
      w \<lparr> mockTasks := mockTasks (snd (mockApi_createTask e d w)),
          nextId := nextId w + 1, tick := Suc (Suc (tick w)), remote_log := remote_log w \<rparr>"
    by (simp add: mockApi_createTask_def date_now_def Let_def)
  then show ?thesis unfolding remote_only_def by blast
qed

lemma remote_only_mockApi_updateTask: "remote_only w (snd (mockApi_updateTask e i d w))"
proof -
  have "snd (mockApi_updateTask e i d w) =
      w \<lparr> mockTasks := mockTasks (snd (mockApi_updateTask e i d w)),
          nextId := nextId w, tick := tick (snd (mockApi_updateTask e i d w)),
          remote_log := remote_log w \<rparr>"
    by (simp add: mockApi_updateTask_def date_now_def Let_def split: option.splits)
  then show ?thesis unfolding remote_only_def by blast
qed

lemma remote_only_log: "remote_only w w' \<Longrightarrow> remote_only w (w' \<lparr> remote_log := lg \<rparr>)"
  unfolding remote_only_def by (elim exE) (simp, blast)

lemma remote_only_createTaskOnServer: "remote_only w (snd (createTaskOnServer e t w))"
proof (cases "use_mock_api e")
  case True
  show ?thesis
  proof (cases "payload t")
    case (Inl err)
    with True show ?thesis by (simp add: createTaskOnServer_def remote_only_refl)
  next
    case (Inr d)
    obtain r w1 where m: "mockApi_createTask e d w = (r, w1)"
      by (cases "mockApi_createTask e d w")
    have "remote_only w (w1 \<lparr> remote_log := remote_log w1 @ [MockCreate d] \<rparr>)"
      using remote_only_log [OF remote_only_mockApi_createTask [of w e d]] m by simp
    then show ?thesis
      using True Inr m by (simp add: createTaskOnServer_def)
  qed
next
  case False
  then have "snd (createTaskOnServer e t w) =
      snd (fetch e \<lparr> req_method = ''POST'', req_url = API_BASE_URL @ ''/tasks'',
                         req_body = Some (title t, description t, status t) \<rparr> w)"
    by (simp add: createTaskOnServer_def split: prod.splits fetch_result.splits sum.splits)
  then show ?thesis using remote_only_fetch by simp
qed

lemma remote_only_updateTaskOnServer: "remote_only w (snd (updateTaskOnServer e t w))"
proof (cases "use_mock_api e \<and> truthy_str (server_id t)")
  case True
  show ?thesis
  proof (cases "payload t")
    case (Inl err)
    with True show ?thesis by (simp add: updateTaskOnServer_def remote_only_refl)
  next
    case (Inr d)
    obtain r w1 where m: "mockApi_updateTask e (template (server_id t)) d w = (r, w1)"
      by (cases "mockApi_updateTask e (template (server_id t)) d w")
    have "remote_only w
        (w1 \<lparr> remote_log := remote_log w1 @ [MockUpdate (template (server_id t)) d] \<rparr>)"
      using remote_only_log
        [OF remote_only_mockApi_updateTask [of w e "template (server_id t)" d]] m
      by simp
    then show ?thesis
      using True Inr m by (simp add: updateTaskOnServer_def)
  qed
next
  case False
  then have "snd (updateTaskOnServer e t w) =
      snd (fetch e \<lparr> req_method = ''PUT'',
                      req_url = API_BASE_URL @ ''/tasks/'' @ template (server_id t),
                      req_body = Some (title t, description t, status t) \<rparr> w)"
    by (auto simp: updateTaskOnServer_def split: prod.splits fetch_result.splits sum.splits)
  then show ?thesis using remote_only_fetch by simp
qed

lemma remote_only_sync_step: "remote_only w w' \<Longrightarrow> sync_step e w w'"
  by (auto simp: remote_only_def sync_step_def engine_frame_def)

lemma sync_step_createTaskOnServer:
  "createTaskOnServer e t w = (x, w') \<Longrightarrow> sync_step e w w'"
  using remote_only_createTaskOnServer [of w e t] by (simp add: remote_only_sync_step)

lemma sync_step_updateTaskOnServer:
  "updateTaskOnServer e t w = (x, w') \<Longrightarrow> sync_step e w w'"
  using remote_only_updateTaskOnServer [of w e t] by (simp add: remote_only_sync_step)

lemma created_id_nonempty:
  assumes "good_env e" and "createTaskOnServer e t w = (Inr (Some response), w')"
  shows "resp_id response \<noteq> []"
proof (cases "use_mock_api e")
  case True
  with assms(2) show ?thesis
    by (auto simp: createTaskOnServer_def date_now_def mockApi_createTask_def Let_def
        rethrow_unless_network_def split: sum.splits if_splits)
next
  case False
  let ?req = "\<lparr> req_method = ''POST'', req_url = API_BASE_URL @ ''/tasks'',
                 req_body = Some (title t, description t, status t) \<rparr>"
  from False assms(1) have ids:
    "\<And>ok txt r. net e (tick w) ?req = FetchResponse ok txt (Inr (Some r)) \<Longrightarrow> resp_id r \<noteq> []"
    unfolding good_env_def by blast
  show ?thesis
  proof (cases "net e (tick w) ?req")
    case (FetchThrows err)
    with False assms(2) show ?thesis
      by (simp add: createTaskOnServer_def fetch_def rethrow_unless_network_def
          split: if_splits)
  next
    case (FetchResponse ok stxt body)
    with False assms(2) ids [of ok stxt response] show ?thesis
      by (cases body)
        (auto simp: createTaskOnServer_def fetch_def rethrow_unless_network_def
          split: if_splits)
  qed
qed

lemma on_table_markAsSyncing:
  "on_table markAsSyncing task w =
     (task \<lparr> sync_status := syncing \<rparr>,
      w \<lparr> tasks := updateTask (data_id task) (no_updates \<lparr> u_sync_status := Some syncing \<rparr>)
                    (tasks w) \<rparr>)"
  by (simp add: on_table_def markAsSyncing_def)

lemma sync_step_markAsSyncing: "sync_step e w (snd (on_table markAsSyncing task w))"
  by (auto simp: on_table_markAsSyncing intro!: sync_step_tasks rows_ok_updateTask)

lemma sync_step_resolveConflict:
  "sync_step e w (snd (timed e (resolveConflict res (Val fs)) task w))"
  by (auto simp: timed_resolveConflict intro!: sync_step_tasks rows_ok_updateTask)

lemma sync_step_markAsSynced:
  "(good_env e \<Longrightarrow> truthy_str sid \<or> truthy_str (server_id task)) \<Longrightarrow>
   sync_step e w (snd (timed e (markAsSynced sid (Val st)) task w))"
  by (auto simp: timed_markAsSynced good_env_def truthy_num_def
      intro!: sync_step_tasks rows_ok_updateTask)

lemma sync_step_catch:
  "sync_step e w (snd (on_table (update (\<lambda>t. t \<lparr> sync_status := pending_sync \<rparr>)) task w))"
  by (auto simp: on_table_def update_def Let_def intro!: sync_step_tasks rows_ok_updateTask)


lemma rethrown_not_network:
  "rethrow_unless_network err = Inl err' \<Longrightarrow> \<not> is_network_error err'"
  by (simp add: rethrow_unless_network_def split: if_splits)

lemma createTaskOnServer_throws:
  assumes "createTaskOnServer e t w = (Inl err, w')"
  shows "\<not> is_network_error err"
proof (cases "use_mock_api e")
  case True
  with assms show ?thesis
    by (auto simp: createTaskOnServer_def Let_def dest: rethrown_not_network
        split: prod.splits sum.splits)
next
  case False
  let ?req = "\<lparr> req_method = ''POST'', req_url = API_BASE_URL @ ''/tasks'',
                 req_body = Some (title t, description t, status t) \<rparr>"
  show ?thesis
  proof (cases "net e (tick w) ?req")
    case (FetchThrows x)
    with False assms show ?thesis
      by (auto simp: createTaskOnServer_def fetch_def dest: rethrown_not_network)
  next
    case (FetchResponse ok stxt body)
    with False assms show ?thesis
      by (cases body; cases ok)
        (auto simp: createTaskOnServer_def fetch_def dest: rethrown_not_network)
  qed
qed

lemma updateTaskOnServer_throws:
  assumes "updateTaskOnServer e t w = (Inl err, w')"
  shows "\<not> is_network_error err"
proof (cases "use_mock_api e \<and> truthy_str (server_id t)")
  case True
  with assms show ?thesis
    by (auto simp: updateTaskOnServer_def Let_def dest: rethrown_not_network
        split: prod.splits sum.splits if_splits)
next
  case False
  let ?req = "\<lparr> req_method = ''PUT'',
                 req_url = API_BASE_URL @ ''/tasks/'' @ template (server_id t),
                 req_body = Some (title t, description t, status t) \<rparr>"
  show ?thesis
  proof (cases "net e (tick w) ?req")
    case (FetchThrows x)
    with False assms show ?thesis
      by (auto simp: updateTaskOnServer_def fetch_def dest: rethrown_not_network)
  next
    case (FetchResponse ok stxt body)
    with False assms show ?thesis
      by (cases body; cases ok)
        (auto simp: updateTaskOnServer_def fetch_def dest: rethrown_not_network)
  qed
qed

lemma not_synced_ok: "sync_status t \<noteq> synced \<Longrightarrow> synced_ok t"
  by (simp add: synced_ok_def)

lemma synced_ok_markAsSynced:
  "good_env e \<Longrightarrow> truthy_str sid \<or> truthy_str (server_id a) \<Longrightarrow>
   synced_ok (fst (timed e (markAsSynced sid (Val st)) a w))"
  by (auto simp: timed_markAsSynced synced_ok_def syncedAt_def truthy_num_def good_env_def)

lemma data_id_markAsSynced [simp]:
  "data_id (fst (timed e (markAsSynced sid (Val st)) a w)) = data_id a"
  by (simp add: timed_markAsSynced)

lemma handleConflict_step:
  assumes sid: "truthy_str (server_id task)"
  shows "sync_step e w (snd (snd (handleConflict e task s w)))
   \<and> data_id (fst (snd (handleConflict e task s w))) = data_id task
   \<and> (good_env e \<longrightarrow> synced_ok (fst (snd (handleConflict e task s w))))
   \<and> (\<forall>err. fst (handleConflict e task s w) = Some err \<longrightarrow> \<not> is_network_error err)"
proof -
  obtain res fs where ct: "conflict_table (status task) s = (res, fs)"
    by (cases "conflict_table (status task) s")
  obtain t1 w1 where r: "timed e (resolveConflict res (Val fs)) task w = (t1, w1)"
    by (cases "timed e (resolveConflict res (Val fs)) task w")
  have s1: "sync_step e w w1"
    using sync_step_resolveConflict [of e w res fs task] r by simp
  have t1: "t1 = task \<lparr> conflict_resolution := Val res, status := fs,
      sync_status := pending_sync, updated_at := clock e (tick w) \<rparr>"
    using r by (simp add: timed_resolveConflict)
  have i1: "data_id t1 = data_id task" and sid1: "truthy_str (server_id t1)"
    and ns1: "synced_ok t1"
    using t1 sid by (simp_all add: not_synced_ok)
  show ?thesis
  proof (cases res)
    case client_wins
    obtain x w2 where u: "updateTaskOnServer e t1 w1 = (x, w2)"
      by (cases "updateTaskOnServer e t1 w1")
    have s2: "sync_step e w w2"
      using sync_step_trans [OF s1 sync_step_updateTaskOnServer [OF u]] .
    show ?thesis
    proof (cases x)
      case (Inl err)
      then show ?thesis
        using ct r u client_wins s2 i1 ns1 updateTaskOnServer_throws [of e t1 w1 err w2]
        by (simp add: handleConflict_def)
    next
      case (Inr v)
      obtain t2 w3 where m: "timed e (markAsSynced (server_id t1) (Val fs)) t1 w2 = (t2, w3)"
        by (cases "timed e (markAsSynced (server_id t1) (Val fs)) t1 w2")
      have s3: "sync_step e w w3"
        using sync_step_trans [OF s2 sync_step_markAsSynced [of e "server_id t1" t1 w2 fs]]
          sid1 m by simp
      have i2: "data_id t2 = data_id task"
        using data_id_markAsSynced [of e "server_id t1" fs t1 w2] m i1 by simp
      have ok2: "good_env e \<longrightarrow> synced_ok t2"
        using synced_ok_markAsSynced [of e "server_id t1" t1 fs w2] sid1 m by simp
      show ?thesis
        using ct r u m Inr client_wins s3 i2 ok2 by (simp add: handleConflict_def)
    qed
  next
    case server_wins
    obtain t2 w2 where m: "timed e (markAsSynced (server_id t1) (Val s)) t1 w1 = (t2, w2)"
      by (cases "timed e (markAsSynced (server_id t1) (Val s)) t1 w1")
    have s2: "sync_step e w w2"
      using sync_step_trans [OF s1 sync_step_markAsSynced [of e "server_id t1" t1 w1 s]]
        sid1 m by simp
    have i2: "data_id t2 = data_id task"
      using data_id_markAsSynced [of e "server_id t1" s t1 w1] m i1 by simp
    have ok2: "good_env e \<longrightarrow> synced_ok t2"
      using synced_ok_markAsSynced [of e "server_id t1" t1 s w1] sid1 m by simp
    show ?thesis
      using ct r m server_wins s2 i2 ok2 by (simp add: handleConflict_def)
  next
    case manual
    show ?thesis
      using ct r manual s1 i1 ns1 by (simp add: handleConflict_def)
  qed
qed


lemma syncTask_try_unfold:
  "syncTask_try e task w =
     (let (t1, w1) = on_table markAsSyncing task w
      in if \<not> truthy_str (server_id t1) then create_and_mark e t1 w1
         else
           (case updateTaskOnServer e t1 w1 of
              (Inl err, w2) \<Rightarrow> (Some err, t1, w2)
            | (Inr (Some st), w2) \<Rightarrow>
                if st \<noteq> status t1 \<and> truthy_val (server_status t1)
                   \<and> server_status t1 \<noteq> Val (status t1)
                then handleConflict e t1 st w2
                else (let (t2, w3) = timed e (markAsSynced (server_id t1) (Val st)) t1 w2
                      in (None, t2, w3))
            | (Inr None, w2) \<Rightarrow> create_and_mark e t1 w2))"
  by (simp only: syncTask_try_def create_and_mark_def)

lemma create_and_mark_step:
  assumes "sync_status t1 \<noteq> synced"
  shows "sync_step e w1 (snd (snd (create_and_mark e t1 w1)))
   \<and> data_id (fst (snd (create_and_mark e t1 w1))) = data_id t1
   \<and> (good_env e \<longrightarrow> synced_ok (fst (snd (create_and_mark e t1 w1))))
   \<and> (\<forall>err. fst (create_and_mark e t1 w1) = Some err \<longrightarrow> \<not> is_network_error err)"
proof -
  obtain x w2 where c: "createTaskOnServer e t1 w1 = (x, w2)"
    by (cases "createTaskOnServer e t1 w1")
  have s2: "sync_step e w1 w2"
    using sync_step_createTaskOnServer [OF c] .
  have ok1: "synced_ok t1"
    using assms by (rule not_synced_ok)
  show ?thesis
  proof (cases x)
    case (Inl err)
    then show ?thesis
      using c s2 ok1 createTaskOnServer_throws [of e t1 w1 err w2]
      by (simp add: create_and_mark_def)
  next
    case (Inr resp)
    show ?thesis
    proof (cases resp)
      case None
      then show ?thesis using c Inr s2 ok1 by (simp add: create_and_mark_def)
    next
      case (Some response)
      let ?m = "timed e (markAsSynced (Val (resp_id response)) (Val (resp_status response))) t1 w2"
      have ne: "good_env e \<Longrightarrow> truthy_str (Val (resp_id response))"
        using created_id_nonempty [of e t1 w1 response w2] c Inr Some
        by (simp add: truthy_str_def)
      have s3: "sync_step e w1 (snd ?m)"
        using sync_step_trans [OF s2 sync_step_markAsSynced] ne by blast
      have ok2: "good_env e \<longrightarrow> synced_ok (fst ?m)"
        using synced_ok_markAsSynced ne by blast
      show ?thesis
        using c Inr Some s3 ok2 by (simp add: create_and_mark_def split: prod.splits)
    qed
  qed
qed

lemma syncTask_try_step:
  "sync_step e w (snd (snd (syncTask_try e task w)))
   \<and> data_id (fst (snd (syncTask_try e task w))) = data_id task
   \<and> (good_env e \<longrightarrow> synced_ok (fst (snd (syncTask_try e task w))))
   \<and> (\<forall>err. fst (syncTask_try e task w) = Some err \<longrightarrow> \<not> is_network_error err)"
proof -
  let ?t1 = "task \<lparr> sync_status := syncing \<rparr>"
  obtain w1 where m: "on_table markAsSyncing task w = (?t1, w1)"
    by (simp add: on_table_markAsSyncing)
  have s1: "sync_step e w w1"
    using sync_step_markAsSyncing [of e w task] m by simp
  have ns: "sync_status ?t1 \<noteq> synced" by simp
  note cm = create_and_mark_step [OF ns]
  show ?thesis
  proof (cases "truthy_str (server_id ?t1)")
    case False
    then show ?thesis
      using m cm [of e w1] sync_step_trans [OF s1]
      by (simp add: syncTask_try_unfold)
  next
    case True
    obtain x w2 where u: "updateTaskOnServer e ?t1 w1 = (x, w2)"
      by (cases "updateTaskOnServer e ?t1 w1")
    have s2: "sync_step e w w2"
      using sync_step_trans [OF s1 sync_step_updateTaskOnServer [OF u]] .
    show ?thesis
    proof (cases x)
      case (Inl err)
      then show ?thesis
        using m True u s2 updateTaskOnServer_throws [of e ?t1 w1 err w2]
        by (simp add: syncTask_try_unfold not_synced_ok)
    next
      case (Inr resp)
      show ?thesis
      proof (cases resp)
        case None
        then show ?thesis
          using m True u Inr cm [of e w2] sync_step_trans [OF s2]
          by (simp add: syncTask_try_unfold)
      next
        case (Some st)
        show ?thesis
        proof (cases "st \<noteq> status ?t1 \<and> truthy_val (server_status ?t1)
                   \<and> server_status ?t1 \<noteq> Val (status ?t1)")
          case conflict: True
          then show ?thesis
            using m True u Inr Some handleConflict_step [OF True, of e w2 st]
              sync_step_trans [OF s2]
            by (simp add: syncTask_try_unfold)
        next
          case False
          let ?k = "timed e (markAsSynced (server_id ?t1) (Val st)) ?t1 w2"
          have s3: "sync_step e w (snd ?k)"
            using sync_step_trans [OF s2 sync_step_markAsSynced] True by blast
          have ok: "good_env e \<longrightarrow> synced_ok (fst ?k)"
            using synced_ok_markAsSynced True by blast
          show ?thesis
            using m \<open>truthy_str (server_id ?t1)\<close> u Inr Some False s3 ok
            by (auto simp: syncTask_try_unfold split: prod.splits)
        qed
      qed
    qed
  qed
qed


lemma syncTask_step:
  "sync_step e (w \<lparr> attempts := attempts w @ [data_id task] \<rparr>) (snd (syncTask e task w))
   \<and> data_id (fst (syncTask e task w)) = data_id task
   \<and> (good_env e \<longrightarrow> synced_ok (fst (syncTask e task w)))"
proof -
  let ?w0 = "w \<lparr> attempts := attempts w @ [data_id task] \<rparr>"
  obtain x t' w' where r: "syncTask_try e task ?w0 = (x, t', w')"
    by (cases "syncTask_try e task ?w0")
  have st: "sync_step e ?w0 w'" and i: "data_id t' = data_id task"
    and ok: "good_env e \<longrightarrow> synced_ok t'"
    using syncTask_try_step [of e ?w0 task] r by simp_all
  show ?thesis
  proof (cases x)
    case None
    then show ?thesis using r st i ok by (simp add: syncTask_def)
  next
    case (Some err)
    let ?c = "on_table (update (\<lambda>t. t \<lparr> sync_status := pending_sync \<rparr>)) t' w'"
    have c1: "sync_step e ?w0 (snd ?c)"
      using sync_step_trans [OF st sync_step_catch] .
    have c2: "fst ?c = t' \<lparr> sync_status := pending_sync \<rparr>"
      by (simp add: on_table_def update_def Let_def)
    show ?thesis
      using r Some c1 c2 i by (simp add: syncTask_def not_synced_ok)
  qed
qed

lemma sync_tasks_step:
  "isOnline (sync_tasks e ts w) = isOnline w
   \<and> isSyncing (sync_tasks e ts w) = isSyncing w
   \<and> sync_queue (sync_tasks e ts w) = sync_queue w
   \<and> notified (sync_tasks e ts w) = notified w
   \<and> attempts (sync_tasks e ts w) = attempts w @ map data_id (filter eligible ts)
   \<and> (good_env e \<longrightarrow> rows_ok (tasks w) \<longrightarrow> rows_ok (tasks (sync_tasks e ts w)))"
proof (induction ts arbitrary: w)
  case Nil
  show ?case by simp
next
  case (Cons task rest)
  show ?case
  proof (cases "eligible task")
    case False
    then show ?thesis using Cons.IH [of w] by simp
  next
    case True
    let ?w1 = "snd (syncTask e task w)"
    have "sync_step e (w \<lparr> attempts := attempts w @ [data_id task] \<rparr>) ?w1"
      using syncTask_step [of e w task] by simp
    then have f: "isOnline ?w1 = isOnline w" "isSyncing ?w1 = isSyncing w"
      "sync_queue ?w1 = sync_queue w" "notified ?w1 = notified w"
      "attempts ?w1 = attempts w @ [data_id task]"
      "good_env e \<longrightarrow> rows_ok (tasks w) \<longrightarrow> rows_ok (tasks ?w1)"
      by (simp_all add: sync_step_def engine_frame_def)
    show ?thesis using True f Cons.IH [of ?w1] by simp
  qed
qed

lemma remote_only_trans: "remote_only w w1 \<Longrightarrow> remote_only w1 w2 \<Longrightarrow> remote_only w w2"
  unfolding remote_only_def by (elim exE) (simp, blast)

lemma remote_only_process_item: "remote_only w (snd (process_item e item w))"
proof (cases "action item = Delete \<and> taskId item \<noteq> [] \<and> \<not> use_mock_api e")
  case True
  then have "snd (process_item e item w) =
      snd (fetch e \<lparr> req_method = ''DELETE'',
                      req_url = API_BASE_URL @ ''/tasks/'' @ taskId item,
                      req_body = None \<rparr> w)"
    by (simp add: process_item_def split: prod.splits fetch_result.splits)
  then show ?thesis using remote_only_fetch by simp
next
  case False
  then have "snd (process_item e item w) = w"
    by (auto simp: process_item_def)
  then show ?thesis using remote_only_refl by simp
qed

lemma remote_only_drain: "remote_only w (snd (drain e queue acc w))"
proof (induction queue arbitrary: acc w)
  case Nil
  show ?case by (simp add: remote_only_refl)
next
  case (Cons item queue)
  obtain x w1 where p: "process_item e item w = (x, w1)"
    by (cases "process_item e item w")
  have r1: "remote_only w w1"
    using remote_only_process_item [of w e item] p by simp
  show ?case
    using p remote_only_trans [OF r1 Cons.IH] by (cases x) simp_all
qed

lemma processSyncQueue_frame:
  "isOnline (processSyncQueue e w) = isOnline w
   \<and> isSyncing (processSyncQueue e w) = isSyncing w
   \<and> tasks (processSyncQueue e w) = tasks w
   \<and> notified (processSyncQueue e w) = notified w
   \<and> attempts (processSyncQueue e w) = attempts w"
proof (cases "sync_queue w")
  case None
  then show ?thesis by (simp add: processSyncQueue_def)
next
  case (Some queue)
  obtain rq w1 where d: "drain e queue [] w = (rq, w1)"
    by (cases "drain e queue [] w")
  have "remote_only w w1"
    using remote_only_drain [of w e queue "[]"] d by simp
  then show ?thesis
    using Some d by (auto simp: processSyncQueue_def remote_only_def)
qed

lemma syncAll_run:
  assumes "isOnline w" and "\<not> isSyncing w"
  shows "isSyncing (syncAll e w) = False
   \<and> isOnline (syncAll e w) = isOnline w
   \<and> notified (syncAll e w) = notified w + 2
   \<and> attempts (syncAll e w)
       = attempts w @ map data_id (filter eligible (database_fetch (tasks w)))
   \<and> (good_env e \<longrightarrow> rows_ok (tasks w) \<longrightarrow> rows_ok (tasks (syncAll e w)))"
proof -
  let ?w1 = "notifyListeners (w \<lparr> isSyncing := True \<rparr>)"
  let ?w2 = "sync_tasks e (database_fetch (tasks ?w1)) ?w1"
  let ?w3 = "processSyncQueue e ?w2"
  have w1: "tasks ?w1 = tasks w" "notified ?w1 = Suc (notified w)" "attempts ?w1 = attempts w"
    "isOnline ?w1 = isOnline w"
    by (simp_all add: notifyListeners_def)
  have e: "syncAll e w = notifyListeners (?w3 \<lparr> isSyncing := False \<rparr>)"
    using assms by (simp add: syncAll_def Let_def)
  show ?thesis
    using sync_tasks_step [of e "database_fetch (tasks ?w1)" ?w1]
      processSyncQueue_frame [of e ?w2] w1
    by (simp add: e notifyListeners_def)
qed

lemma syncAll_rows_ok:
  "good_env e \<Longrightarrow> rows_ok (tasks w) \<Longrightarrow> rows_ok (tasks (syncAll e w))"
proof (cases "isSyncing w \<or> \<not> isOnline w")
  case True
  then show "rows_ok (tasks w) \<Longrightarrow> rows_ok (tasks (syncAll e w))"
    by (simp add: syncAll_def)
next
  case False
  then show "good_env e \<Longrightarrow> rows_ok (tasks w) \<Longrightarrow> rows_ok (tasks (syncAll e w))"
    using syncAll_run [of w e] by simp
qed

subsection \<open>Failure of one task\<close>

text \<open>
  Claim C5. When the \<open>try\<close> block of the per-entity procedure throws (only the create or
  update call can, and only with an error that is not a connectivity failure), the error
  is caught and the task and its row are set to \<open>pending_sync\<close>. A run of \<open>syncAll\<close>
  that passes the guard enters the procedure for every eligible task of its snapshot, in
  order, whatever happened to the tasks before it, and ends with the syncing flag cleared
  and the listeners notified once at the start and once at the end.
\<close>

theorem sync_failure_is_contained:
  "(syncTask_thrown e task w = Some err \<longrightarrow>
      \<not> is_network_error err
      \<and> sync_status (fst (syncTask e task w)) = pending_sync
      \<and> (\<forall>r \<in> set (tasks (snd (syncTask e task w))).
            data_id r = data_id task \<longrightarrow> sync_status r = pending_sync))
   \<and> (isOnline w \<and> \<not> isSyncing w \<longrightarrow>
      \<not> isSyncing (syncAll e w)
      \<and> notified (syncAll e w) = notified w + 2
      \<and> attempts (syncAll e w)
          = attempts w @ map data_id (filter eligible (database_fetch (tasks w))))"
proof -
  let ?w0 = "w \<lparr> attempts := attempts w @ [data_id task] \<rparr>"
  have a: "\<not> is_network_error err
      \<and> sync_status (fst (syncTask e task w)) = pending_sync
      \<and> (\<forall>r \<in> set (tasks (snd (syncTask e task w))).
            data_id r = data_id task \<longrightarrow> sync_status r = pending_sync)"
    if thrown: "syncTask_thrown e task w = Some err"
  proof -
    obtain t' w' where r: "syncTask_try e task ?w0 = (Some err, t', w')"
      using thrown by (cases "syncTask_try e task ?w0") (simp add: syncTask_thrown_def)
    have i: "data_id t' = data_id task" and nn: "\<not> is_network_error err"
      using syncTask_try_step [of e ?w0 task] r by simp_all
    have res: "syncTask e task w =
        (t' \<lparr> sync_status := pending_sync \<rparr>,
         w' \<lparr> tasks := updateTask (data_id t')
                 (all_fields (t' \<lparr> sync_status := pending_sync \<rparr>)) (tasks w') \<rparr>)"
      using r by (simp add: syncTask_def on_table_def update_def Let_def)
    have u: "u_sync_status (all_fields (t' \<lparr> sync_status := pending_sync \<rparr>)) = Some pending_sync"
      by (simp add: all_fields_def)
    show ?thesis
      using nn i by (auto simp: res updateTask_map [OF u] set_req_def u)
  qed
  have b: "\<not> isSyncing (syncAll e w)
      \<and> notified (syncAll e w) = notified w + 2
      \<and> attempts (syncAll e w)
          = attempts w @ map data_id (filter eligible (database_fetch (tasks w)))"
    if "isOnline w \<and> \<not> isSyncing w"
    using that syncAll_run [of w e] by simp
  show ?thesis using a b by blast
qed

lemmas failing_defs = failing_env_def new_task_def example_world_def initial_world_def
  syncTask_thrown_def timed_def on_table_def date_now_def markAsSynced_def markAsSyncing_def
  updateTask_def apply_updates_def no_updates_def set_req_def set_opt_def or_null_str_def
  or_null_num_def or_null_val_def truthy_str_def truthy_num_def truthy_val_def
  createTaskOnServer_def fetch_def rethrow_unless_network_def is_network_error_def
  API_BASE_URL_def Error_def syncAll_def syncTask_def syncTask_try_def processSyncQueue_def
  database_fetch_def getAllTasks_def notifyListeners_def eligible_def update_def all_fields_def

theorem sync_failure_is_contained_witness:
  "syncTask_thrown failing_env (new_task ''task_a'' 1000)
       (example_world [new_task ''task_a'' 1000, new_task ''task_b'' 2000])
     = Some (Error ''Failed to create task: Internal Server Error'')
   \<and> sync_status (fst (syncTask failing_env (new_task ''task_a'' 1000)
       (example_world [new_task ''task_a'' 1000, new_task ''task_b'' 2000]))) = pending_sync
   \<and> (isOnline (example_world [new_task ''task_a'' 1000, new_task ''task_b'' 2000])
       \<and> \<not> isSyncing (example_world [new_task ''task_a'' 1000, new_task ''task_b'' 2000]))
   \<and> \<not> isSyncing (syncAll failing_env
          (example_world [new_task ''task_a'' 1000, new_task ''task_b'' 2000]))
   \<and> attempts (syncAll failing_env
          (example_world [new_task ''task_a'' 1000, new_task ''task_b'' 2000]))
       = [''task_b'', ''task_a'']
   \<and> map sync_status (tasks (syncAll failing_env
          (example_world [new_task ''task_a'' 1000, new_task ''task_b'' 2000])))
       = [pending_sync, pending_sync]"
proof -
  let ?w = "example_world [new_task ''task_a'' 1000, new_task ''task_b'' 2000]"
  have h1: "syncTask_thrown failing_env (new_task ''task_a'' 1000) ?w
     = Some (Error ''Failed to create task: Internal Server Error'')"
    by (simp add: failing_defs Let_def)
  have h2: "isOnline ?w \<and> \<not> isSyncing ?w"
    by (simp add: example_world_def initial_world_def)
  have fetched: "map data_id (filter eligible (database_fetch (tasks ?w))) = [''task_b'', ''task_a'']"
    by (simp add: failing_defs)
  have rows: "map sync_status (tasks (syncAll failing_env ?w)) = [pending_sync, pending_sync]"
    by (simp add: failing_defs Let_def)
  show ?thesis
    using h1 h2 fetched rows
      sync_failure_is_contained [of failing_env "new_task ''task_a'' 1000" ?w
        "Error ''Failed to create task: Internal Server Error''"]
    by (simp add: example_world_def initial_world_def)
qed

subsection \<open>The invariant of \<open>synced\<close>\<close>

lemma rows_ok_deleteTask: "rows_ok rows \<Longrightarrow> rows_ok (deleteTask i rows)"
  by (simp add: rows_ok_def deleteTask_def)

lemma tasks_addToQueue [simp]: "tasks (addToQueue item w) = tasks w"
  by (simp add: addToQueue_def Let_def)

lemma handleDelete_rows_ok: "rows_ok (tasks w) \<Longrightarrow> rows_ok (tasks (handleDelete e task w))"
  by (simp add: handleDelete_def destroyPermanently_def date_now_def Let_def
      rows_ok_deleteTask)

lemma updateStatus_rows_ok:
  "rows_ok rows \<Longrightarrow> rows_ok (snd (updateStatus newStatus now a rows))"
  by (auto simp: updateStatus_def Let_def intro!: rows_ok_updateTask)

lemma saveEdit_rows_ok:
  "rows_ok (tasks w) \<Longrightarrow> rows_ok (tasks (snd (saveEdit e f task w)))"
  by (auto simp: saveEdit_def timed_def on_table_def date_now_def update_def Let_def
      edit_updater_fields intro!: rows_ok_updateTask split: if_splits)

lemma create_initializer_sync [simp]:
  "sync_status (create_initializer f now t) = pending_sync"
  by (simp add: create_initializer_def Let_def split: option.splits)

lemma database_create_rows_ok:
  assumes "sync_status (initializer (tempTask now)) \<noteq> synced" and "rows_ok rows"
  shows "rows_ok (snd (database_create uuid now initializer rows))"
  using assms
  by (auto simp: database_create_def createTask_def rows_ok_def Let_def not_synced_ok
      split: option.splits)

lemma handleCreateTask_rows_ok:
  assumes "good_env e" and "rows_ok (tasks w)"
  shows "rows_ok (tasks (handleCreateTask e f uuid w))"
proof (cases "trim (c_title f) = []")
  case True
  then show ?thesis using assms(2) by (simp add: handleCreateTask_def)
next
  case False
  let ?now = "clock e (tick w)"
  let ?stamp = "clock e (Suc (tick w))"
  let ?w1 = "w \<lparr> tick := Suc (Suc (tick w)) \<rparr>"
  obtain x rows' where c:
    "database_create uuid ?now (create_initializer f ?stamp) (tasks w) = (x, rows')"
    by (cases "database_create uuid ?now (create_initializer f ?stamp) (tasks w)")
  have ok: "rows_ok rows'"
    using database_create_rows_ok [of "create_initializer f ?stamp" ?now "tasks w" uuid]
      assms(2) c by simp
  then have ok2: "rows_ok (tasks (syncAll e (?w1 \<lparr> tasks := rows' \<rparr>)))"
    using syncAll_rows_ok [OF assms(1), of "?w1 \<lparr> tasks := rows' \<rparr>"] by simp
  show ?thesis
    using False c ok ok2
    by (cases x) (simp_all add: handleCreateTask_def date_now_def Let_def)
qed

lemma handleStatusChange_rows_ok:
  assumes "good_env e" and "rows_ok (tasks w)"
  shows "rows_ok (tasks (handleStatusChange e task newStatus w))"
proof -
  obtain t1 w1 where u: "timed e (updateStatus newStatus) task w = (t1, w1)"
    by (cases "timed e (updateStatus newStatus) task w")
  have "tasks w1 = snd (updateStatus newStatus (clock e (tick w)) task (tasks w))"
    using u by (auto simp: timed_def on_table_def date_now_def Let_def split: prod.splits)
  then have ok: "rows_ok (tasks w1)"
    using updateStatus_rows_ok assms(2) by simp
  show ?thesis
    using u ok syncAll_rows_ok [OF assms(1) ok]
    by (simp add: handleStatusChange_def)
qed

lemma handleUpdate_rows_ok:
  assumes "good_env e" and "rows_ok (tasks w)"
  shows "rows_ok (tasks (snd (handleUpdate e f task w)))"
proof (cases "trim (e_title f) = []")
  case True
  then show ?thesis using assms(2) by (simp add: handleUpdate_def)
next
  case False
  obtain t1 w1 where u: "saveEdit e f task w = (t1, w1)"
    by (cases "saveEdit e f task w")
  have ok: "rows_ok (tasks w1)"
    using saveEdit_rows_ok [OF assms(2), of e f task] u by simp
  show ?thesis
    using False u ok syncAll_rows_ok [OF assms(1) ok]
    by (simp add: handleUpdate_def Let_def)
qed

lemma onNetworkChange_rows_ok:
  assumes "good_env e" and "rows_ok (tasks w)"
  shows "rows_ok (tasks (onNetworkChange e c w))"
proof -
  let ?w1 = "notifyListeners (w \<lparr> isOnline := c \<rparr>)"
  have ok: "rows_ok (tasks ?w1)"
    using assms(2) by (simp add: notifyListeners_def)
  show ?thesis
    using ok syncAll_rows_ok [OF assms(1) ok]
    by (simp add: onNetworkChange_def Let_def)
qed

lemma step_rows_ok:
  assumes "good_env e" and "rows_ok (tasks w)"
  shows "rows_ok (tasks (step e a w))"
proof (cases a)
  case (CreateTask f uuid)
  then show ?thesis using handleCreateTask_rows_ok [OF assms] by simp
next
  case (ChangeStatus task newStatus)
  then show ?thesis using handleStatusChange_rows_ok [OF assms] by simp
next
  case (SaveEdit f task)
  then show ?thesis using handleUpdate_rows_ok [OF assms] by simp
next
  case (DeleteTask task)
  then show ?thesis using handleDelete_rows_ok [OF assms(2)] by simp
next
  case (NetworkChange c)
  then show ?thesis using onNetworkChange_rows_ok [OF assms] by simp
next
  case SyncAll
  then show ?thesis using syncAll_rows_ok [OF assms] by simp
qed

lemma run_rows_ok:
  "good_env e \<Longrightarrow> rows_ok (tasks w) \<Longrightarrow> rows_ok (tasks (run e acts w))"
proof (induction acts arbitrary: w)
  case Nil
  then show ?case by simp
next
  case (Cons a acts)
  show ?case
    using Cons.IH [OF Cons.prems(1) step_rows_ok [OF Cons.prems]] by simp
qed


text \<open>
  Claim C3. With a clock that never reads 0 and create responses that carry an id: in every
  state the application reaches from the empty store, a row marked \<open>synced\<close> has a
  server id and a time of synchronisation; every action keeps this; the per-entity
  procedure leaves its adapter in such a state on the create path, the update path and
  both conflict paths; and \<open>markAsSynced\<close> establishes it whenever it is given, or the
  task already has, a server id.
\<close>

theorem synced_implies_server_id_and_synced_at:
  assumes "good_env e"
  shows "(\<forall>r \<in> set (tasks (run e acts initial_world)).
            sync_status r = synced \<longrightarrow> truthy_str (server_id r) \<and> syncedAt r \<noteq> Undefined)
   \<and> (rows_ok (tasks w) \<longrightarrow> rows_ok (tasks (step e a w)))
   \<and> synced_ok (fst (syncTask e task w))
   \<and> (truthy_str sid \<or> truthy_str (server_id task) \<longrightarrow>
        synced_ok (fst (timed e (markAsSynced sid (Val st)) task w)))"
proof -
  have "rows_ok (tasks initial_world)"
    by (simp add: rows_ok_def initial_world_def)
  then have "rows_ok (tasks (run e acts initial_world))"
    using run_rows_ok [OF assms] by blast
  then have a: "\<forall>r \<in> set (tasks (run e acts initial_world)).
            sync_status r = synced \<longrightarrow> truthy_str (server_id r) \<and> syncedAt r \<noteq> Undefined"
    unfolding rows_ok_def synced_ok_def by blast
  have b: "rows_ok (tasks w) \<longrightarrow> rows_ok (tasks (step e a w))"
    using step_rows_ok [OF assms] by blast
  have c: "synced_ok (fst (syncTask e task w))"
    using syncTask_step [of e w task] assms by blast
  have d: "truthy_str sid \<or> truthy_str (server_id task) \<longrightarrow>
        synced_ok (fst (timed e (markAsSynced sid (Val st)) task w))"
    using synced_ok_markAsSynced [OF assms] by blast
  show ?thesis using a b c d by blast
qed

lemma good_shipped_env: "good_env shipped_env"
  by (simp add: good_env_def shipped_env_def shipped_def USE_MOCK_API_def)

lemmas shipped_defs = shipped_env_def shipped_def USE_MOCK_API_def example_form_def
  initial_world_def handleCreateTask_def database_create_def createTask_def getTask_def
  tempTask_def create_initializer_def trim_def is_space_def onNetworkChange_def
  payload_def expires_iso_def toISOString_def first_image_def imageUrl_def location_def
  expiresAt_def syncedAt_def mockApi_createTask_def
  timed_def on_table_def date_now_def markAsSynced_def markAsSyncing_def
  updateTask_def apply_updates_def no_updates_def set_req_def set_opt_def or_null_str_def
  or_null_num_def or_null_val_def truthy_str_def truthy_num_def truthy_val_def
  createTaskOnServer_def syncAll_def syncTask_def syncTask_try_def processSyncQueue_def
  database_fetch_def getAllTasks_def notifyListeners_def eligible_def update_def all_fields_def

theorem synced_implies_server_id_and_synced_at_witness:
  "good_env shipped_env
   \<and> map sync_status
        (tasks (run shipped_env [CreateTask example_form ''u1'', NetworkChange True]
           initial_world)) = [synced]
   \<and> map server_id
        (tasks (run shipped_env [CreateTask example_form ''u1'', NetworkChange True]
           initial_world)) = [Val ''task_1'']
   \<and> map syncedAt
        (tasks (run shipped_env [CreateTask example_form ''u1'', NetworkChange True]
           initial_world)) = [Val 5004]"
proof -
  have d: "decimal (Suc 0) = ''1''"
    by code_simp
  have rows: "map (\<lambda>r. (sync_status r, server_id r, syncedAt r))
        (tasks (run shipped_env [CreateTask example_form ''u1'', NetworkChange True]
           initial_world)) = [(synced, Val ''task_1'', Val 5004)]"
    by (simp add: shipped_defs d Let_def)
  have one: "map (\<lambda>r. (f r, g r, h r)) xs = [(a, b, c)] \<Longrightarrow>
      map f xs = [a] \<and> map g xs = [b] \<and> map h xs = [c]"
    for f :: "TaskData \<Rightarrow> 'x" and g :: "TaskData \<Rightarrow> 'y" and h :: "TaskData \<Rightarrow> 'z"
      and xs a b c
    by (cases xs) auto
  show ?thesis
    using good_shipped_env one [OF rows]
      synced_implies_server_id_and_synced_at [OF good_shipped_env,
        of "[CreateTask example_form ''u1'', NetworkChange True]"]
    by simp
qed

subsection \<open>Draining the queue\<close>

lemma length_outcomes [simp]: "length (outcomes e queue w) = length queue"
  by (induction queue arbitrary: w) simp_all

lemma retained_Cons:
  "nths (item # queue) (retained e (item # queue) w) =
     (if fst (process_item e item w) \<noteq> None then [item] else [])
     @ nths queue (retained e queue (snd (process_item e item w)))"
proof -
  have "{j. Suc j \<in> retained e (item # queue) w}
      = retained e queue (snd (process_item e item w))"
    by (auto simp: retained_def)
  moreover have "0 \<in> retained e (item # queue) w \<longleftrightarrow> fst (process_item e item w) \<noteq> None"
    by (simp add: retained_def)
  ultimately show ?thesis by (simp add: nths_Cons)
qed

lemma drain_retained:
  "fst (drain e queue acc w) = acc @ nths queue (retained e queue w)"
proof (induction queue arbitrary: acc w)
  case Nil
  show ?case by simp
next
  case (Cons item queue)
  obtain x w1 where p: "process_item e item w = (x, w1)"
    by (cases "process_item e item w")
  show ?case
    using p Cons.IH [of acc w1] Cons.IH [of "acc @ [item]" w1]
    by (cases x) (simp_all add: retained_Cons)
qed

text \<open>
  Claim C8. A drain while online leaves in the persisted queue exactly the items at the
  positions whose processing threw, in their original order: an item whose processing
  threw a connectivity error is kept, an item whose processing succeeded is gone.
\<close>

theorem drain_keeps_failed_items_in_order:
  assumes "isOnline w" and "sync_queue w = Some queue"
  shows "queue_items (processSyncQueue e w) = nths queue (retained e queue w)
   \<and> (\<forall>i < length queue. \<forall>err.
         outcomes e queue w ! i = Some err \<and> is_queue_connectivity_error err
           \<longrightarrow> i \<in> retained e queue w)
   \<and> (\<forall>i < length queue. outcomes e queue w ! i = None \<longrightarrow> i \<notin> retained e queue w)"
proof -
  obtain rq w1 where d: "drain e queue [] w = (rq, w1)"
    by (cases "drain e queue [] w")
  have rq: "rq = nths queue (retained e queue w)"
    using drain_retained [of e queue "[]" w] d by simp
  have "queue_items (processSyncQueue e w) = rq"
    using assms d by (cases rq) (simp_all add: processSyncQueue_def queue_items_def)
  then show ?thesis
    using rq by (simp add: retained_def)
qed

lemmas drain_defs = flaky_env_def mixed_queue_def network_failure_def example_world_def
  initial_world_def processSyncQueue_def process_item_def fetch_def API_BASE_URL_def
  is_queue_connectivity_error_def Error_def queue_items_def

theorem drain_keeps_failed_items_in_order_witness:
  "isOnline (example_world [] \<lparr> sync_queue := Some mixed_queue \<rparr>)
   \<and> sync_queue (example_world [] \<lparr> sync_queue := Some mixed_queue \<rparr>) = Some mixed_queue
   \<and> outcomes flaky_env mixed_queue (example_world [] \<lparr> sync_queue := Some mixed_queue \<rparr>)
       = [Some network_failure, None, None, Some network_failure]
   \<and> is_queue_connectivity_error network_failure
   \<and> nths mixed_queue
         (retained flaky_env mixed_queue (example_world [] \<lparr> sync_queue := Some mixed_queue \<rparr>))
       = [\<lparr> taskId = ''srv_3'', action = Delete, data = Undefined, timestamp = 100 \<rparr>,
          \<lparr> taskId = ''srv_3'', action = Delete, data = Undefined, timestamp = 400 \<rparr>]"
proof -
  let ?w = "example_world [] \<lparr> sync_queue := Some mixed_queue \<rparr>"
  have a: "isOnline ?w" and b: "sync_queue ?w = Some mixed_queue"
    by (simp_all add: example_world_def)
  have o: "outcomes flaky_env mixed_queue ?w
       = [Some network_failure, None, None, Some network_failure]"
    by (simp add: drain_defs)
  have c: "is_queue_connectivity_error network_failure"
    by (simp add: is_queue_connectivity_error_def network_failure_def)
  have q: "queue_items (processSyncQueue flaky_env ?w)
       = [\<lparr> taskId = ''srv_3'', action = Delete, data = Undefined, timestamp = 100 \<rparr>,
          \<lparr> taskId = ''srv_3'', action = Delete, data = Undefined, timestamp = 400 \<rparr>]"
    by (simp add: drain_defs)
  show ?thesis
    using a b o c q drain_keeps_failed_items_in_order [OF a b, of flaky_env]
    by simp
qed

subsection \<open>Image references through the TEXT column\<close>

text \<open>
  First the platform's side: parsing the JSON text of an array of strings gives the
  strings back, whatever code units they hold (quotes, backslashes, control characters,
  lone surrogates).
\<close>

lemma hex_digits_all: "\<forall>d \<in> set [0..<16]. hex_value (hex_digit d) = Some d"
  by code_simp

lemma hex_value_hex_digit: "d < 16 \<Longrightarrow> hex_value (hex_digit d) = Some d"
  using hex_digits_all by simp

lemma hex4_nat:
  fixes n :: nat
  shows "((n div 4096 * 16 + n div 256 mod 16) * 16 + n div 16 mod 16) * 16 + n mod 16 = n"
proof -
  define m1 where "m1 = n div 16"
  define m2 where "m2 = m1 div 16"
  define m3 where "m3 = m2 div 16"
  have d2: "n div 256 = m2"
    unfolding m2_def m1_def by (simp add: div_mult2_eq [symmetric])
  have d3: "n div 4096 = m3"
    unfolding m3_def m2_def m1_def by (simp add: div_mult2_eq [symmetric])
  have a: "m3 * 16 + m2 mod 16 = m2"
    unfolding m3_def by simp
  have b: "m2 * 16 + m1 mod 16 = m1"
    unfolding m2_def by simp
  have c: "m1 * 16 + n mod 16 = n"
    unfolding m1_def by simp
  show ?thesis
    unfolding d2 d3 m1_def [symmetric] a b c ..
qed

lemma parse_hex4_UnicodeEscape:
  "parse_hex4 (drop 2 (UnicodeEscape c) @ rest) = Some c"
proof -
  have lt: "unat c < 65536"
    using unsigned_less [of c, where 'a = nat] by simp
  then have "unat c div 4096 < 16" by simp
  then have "parse_hex4 (drop 2 (UnicodeEscape c) @ rest) =
      Some (of_nat (((unat c div 4096 * 16 + unat c div 256 mod 16) * 16
                     + unat c div 16 mod 16) * 16 + unat c mod 16))"
    by (simp add: UnicodeEscape_def parse_hex4_def hex_value_hex_digit
        del: of_nat_add of_nat_mult)
  then show ?thesis
    unfolding hex4_nat by simp
qed


lemma parse_chars_UnicodeEscape:
  "parse_chars (UnicodeEscape c @ rest) = cons_result c (parse_chars rest)"
proof -
  obtain h where u: "UnicodeEscape c = 0x5C # 0x75 # h" and l: "length h = 4"
    and d: "drop 2 (UnicodeEscape c) = h"
    by (simp add: UnicodeEscape_def)
  have "parse_hex4 (h @ rest) = Some c"
    using parse_hex4_UnicodeEscape [of c rest] d by simp
  then show ?thesis
    using l by (simp add: u)
qed

lemma surrogate_is_literal:
  assumes "is_high_surrogate c \<or> is_low_surrogate c"
  shows "c \<noteq> 0x22 \<and> c \<noteq> 0x5C \<and> \<not> c < 0x20"
  using assms
  by (auto simp: is_high_surrogate_def is_low_surrogate_def word_le_nat_alt word_less_nat_alt)

lemma parse_chars_quote_units:
  "parse_chars (quote_units s @ 0x22 # rest) = Some (s, rest)"
proof (induction "length s" arbitrary: s rule: less_induct)
  case less
  show ?case
  proof (cases s)
    case Nil
    then show ?thesis by simp
  next
    case (Cons c cs)
    have ih: "parse_chars (quote_units cs @ 0x22 # rest) = Some (cs, rest)"
      using less [of cs] Cons by simp
    show ?thesis
    proof (cases "c = 0x08 \<or> c = 0x09 \<or> c = 0x0A \<or> c = 0x0C \<or> c = 0x0D \<or> c = 0x22 \<or> c = 0x5C")
      case True
      then show ?thesis
        unfolding Cons using ih
        by (elim disjE) (simp_all add: simple_escape_def cons_result_def)
    next
      case plain: False
      show ?thesis
      proof (cases "c < 0x20")
        case True
        then show ?thesis
          unfolding Cons using plain ih
          by (simp add: parse_chars_UnicodeEscape cons_result_def)
      next
        case printable: False
        show ?thesis
        proof (cases "is_high_surrogate c")
          case high: True
          show ?thesis
          proof (cases cs)
            case Nil
            then show ?thesis
              unfolding Cons using plain printable high
              by (simp add: parse_chars_UnicodeEscape cons_result_def)
          next
            case inner: (Cons d ds)
            have ih2: "parse_chars (quote_units ds @ 0x22 # rest) = Some (ds, rest)"
              using less [of ds] Cons inner by simp
            show ?thesis
            proof (cases "is_low_surrogate d")
              case True
              then show ?thesis
                unfolding Cons inner
                using plain printable high ih2 surrogate_is_literal [of d]
                by (simp add: cons_result_def)
            next
              case False
              then show ?thesis
                using plain printable high ih
                unfolding Cons inner
                by (simp add: parse_chars_UnicodeEscape cons_result_def)
            qed
          qed
        next
          case nothigh: False
          show ?thesis
          proof (cases "is_low_surrogate c")
            case True
            then show ?thesis
              unfolding Cons using plain printable nothigh ih
              by (simp add: parse_chars_UnicodeEscape cons_result_def)
          next
            case False
            then show ?thesis
              unfolding Cons using plain printable nothigh ih
              by (simp add: cons_result_def)
          qed
        qed
      qed
    qed
  qed
qed


declare parse_value.simps [simp del] parse_elements.simps [simp del]
  parse_members.simps [simp del]

lemma parse_value_quoted:
  "parse_value (QuoteJSONString s @ rest) = Some (JString s, rest)"
  by (simp add: QuoteJSONString_def parse_value.simps parse_chars_quote_units)

lemma joined_starts_with_quote:
  "\<exists>t. join_commas (map QuoteJSONString (x # xs)) = 0x22 # t"
  by (cases xs) (simp_all add: QuoteJSONString_def)

lemma skip_ws_Nil [simp]: "skip_ws [] = []"
  by (simp add: skip_ws_def)

lemma skip_ws_quote [simp]: "skip_ws (0x22 # t) = 0x22 # t"
  by (simp add: skip_ws_def is_ws_def)

lemma skip_ws_punct [simp]:
  "skip_ws (0x5D # t) = 0x5D # t" "skip_ws (0x2C # t) = 0x2C # t" "skip_ws (0x5B # t) = 0x5B # t"
  by (simp_all add: skip_ws_def is_ws_def)

lemma parse_elements_strings:
  "parse_elements (join_commas (map QuoteJSONString (x # xs)) @ 0x5D # rest)
     = Some (map JString (x # xs), rest)"
proof (induction xs arbitrary: x)
  case Nil
  show ?case
    by (subst parse_elements.simps) (simp add: parse_value_quoted)
next
  case (Cons y ys)
  obtain t where t: "join_commas (map QuoteJSONString (y # ys)) = 0x22 # t"
    using joined_starts_with_quote by blast
  let ?ds = "join_commas (map QuoteJSONString (y # ys)) @ 0x5D # rest"
  have ds: "skip_ws ?ds = ?ds"
    using t by simp
  have "parse_elements (QuoteJSONString x @ 0x2C # ?ds)
      = cons_result (JString x) (parse_elements (skip_ws ?ds))"
    by (subst parse_elements.simps) (simp add: parse_value_quoted)
  then show ?case
    using Cons.IH [of y] ds by (simp add: cons_result_def)
qed

lemma JSON_roundtrip: "JSON_parse (JSON_stringify xs) = Some (JArray (map JString xs))"
proof (cases xs)
  case Nil
  then show ?thesis
    by (simp add: JSON_parse_def JSON_stringify_def parse_value.simps)
next
  case (Cons x xs')
  obtain t where t: "join_commas (map QuoteJSONString (x # xs')) = 0x22 # t"
    using joined_starts_with_quote by blast
  have e: "parse_elements (0x22 # t @ [0x5D]) = Some (map JString (x # xs'), [])"
    using parse_elements_strings [of x xs' "[]"] t by simp
  show ?thesis
    unfolding Cons JSON_parse_def JSON_stringify_def
    using t e by (simp add: parse_value.simps)
qed

lemma JSON_stringify_nonempty [simp]: "JSON_stringify xs \<noteq> []"
  by (simp add: JSON_stringify_def)

lemma imageUrl_of_array:
  "image_url d = Val (JSON_stringify xs) \<Longrightarrow> imageUrl d = ImageArray (map JString xs)"
  by (simp add: imageUrl_def JSON_roundtrip)

lemma image_url_apply_updates [simp]:
  "image_url (apply_updates u r) = set_opt or_null_str (u_image_url u) (image_url r)"
  by (simp add: apply_updates_def)

lemma stored_array:
  "set_opt or_null_str (Val (JSON_stringify xs)) old = Val (JSON_stringify xs)"
  by (simp add: set_opt_truthy_str truthy_str_def)

lemma create_initializer_images:
  "c_imageUris f \<noteq> [] \<Longrightarrow>
   image_url (create_initializer f now t) = Val (JSON_stringify (c_imageUris f))"
  by (simp add: create_initializer_def set_imageUrl_def set_location_def Let_def
      split: option.splits)

lemma edit_updater_images:
  "e_imageUris g \<noteq> [] \<Longrightarrow>
   image_url (edit_updater g now t) = Val (JSON_stringify (e_imageUris g))"
  by (simp add: edit_updater_def set_imageUrl_def set_location_def Let_def
      split: option.splits)

lemma getTask_Some: "getTask i rows = Some d \<Longrightarrow> d \<in> set rows \<and> data_id d = i"
proof -
  assume "getTask i rows = Some d"
  then obtain ds where "filter (\<lambda>r. data_id r = i) rows = d # ds"
    by (auto simp: getTask_def split: list.splits)
  then have "d \<in> set (filter (\<lambda>r. data_id r = i) rows)" by simp
  then show ?thesis by simp
qed

lemma database_create_result:
  assumes "database_create uuid now initializer rows = (Inr created, rows')"
  shows "getTask (data_id created) rows' = Some created
    \<and> image_url created = or_null_str (image_url (initializer (tempTask now)))"
proof -
  let ?i = "''task_'' @ uuid"
  let ?t = "(initializer (tempTask now)) \<lparr> created_at := now, updated_at := now,
      server_id := Undefined, server_status := Undefined, conflict_resolution := Undefined,
      synced_at := Undefined \<rparr>"
  have fresh: "?i \<notin> data_id ` set rows"
    using assms by (auto simp: database_create_def Let_def split: if_splits)
  then have "\<forall>r \<in> set rows. data_id r \<noteq> ?i"
    by force
  then have nf: "filter (\<lambda>r. data_id r = ?i) rows = []"
    by (simp add: filter_empty_conv)
  have rows': "rows' = createTask ?i ?t rows"
    using assms fresh
    by (auto simp: database_create_def Let_def split: if_splits option.splits)
  have g: "getTask ?i rows' = Some created"
    using assms fresh
    by (auto simp: database_create_def Let_def split: if_splits option.splits)
  have new: "getTask ?i (createTask ?i ?t rows) = Some (last (createTask ?i ?t rows))"
    using nf by (simp add: getTask_def createTask_def)
  have c: "created = last (createTask ?i ?t rows)"
    using g new rows' by simp
  have "data_id created = ?i"
    using c by (simp add: createTask_def)
  then show ?thesis
    using g c by (simp add: createTask_def)
qed

lemma database_create_images:
  assumes "image_url (initializer (tempTask now)) = Val (JSON_stringify xs)"
    and "database_create uuid now initializer rows = (Inr created, rows')"
    and "getTask (data_id created) rows' = Some d"
  shows "image_url created = Val (JSON_stringify xs) \<and> image_url d = Val (JSON_stringify xs)"
  using database_create_result [OF assms(2)] assms(1,3)
  by (simp add: or_null_str_def truthy_str_def)

text \<open>
  Claim C9. Setting a task's image references to a list of strings and reading them back
  yields the same strings in the same order: on the adapter itself, for a task created
  from a form with at least one image and then reloaded, and for a task saved from the
  edit screen with at least one image and then reloaded.
\<close>

theorem image_references_roundtrip:
  "imageUrl (set_imageUrl (SetArray xs) t) = ImageArray (map JString xs)
   \<and> (c_imageUris f \<noteq> []
       \<and> database_create uuid now (create_initializer f now) rows = (Inr created, rows')
       \<and> database_find (data_id created) rows' = Inr d
      \<longrightarrow> imageUrl created = ImageArray (map JString (c_imageUris f))
        \<and> imageUrl d = ImageArray (map JString (c_imageUris f)))
   \<and> (e_imageUris g \<noteq> []
       \<and> database_find (data_id task) (tasks (snd (saveEdit e g task w))) = Inr d'
      \<longrightarrow> imageUrl d' = ImageArray (map JString (e_imageUris g)))"
proof -
  have a: "imageUrl (set_imageUrl (SetArray xs) t) = ImageArray (map JString xs)"
    by (simp add: set_imageUrl_def imageUrl_of_array)
  have b: "imageUrl created = ImageArray (map JString (c_imageUris f))
        \<and> imageUrl d = ImageArray (map JString (c_imageUris f))"
    if h: "c_imageUris f \<noteq> []"
      "database_create uuid now (create_initializer f now) rows = (Inr created, rows')"
      "database_find (data_id created) rows' = Inr d"
  proof -
    have "getTask (data_id created) rows' = Some d"
      using h(3) by (simp add: database_find_def split: option.splits)
    then show ?thesis
      using database_create_images [OF create_initializer_images [OF h(1)] h(2)]
      by (simp add: imageUrl_of_array)
  qed
  have c: "imageUrl d' = ImageArray (map JString (e_imageUris g))"
    if h: "e_imageUris g \<noteq> []"
      "database_find (data_id task) (tasks (snd (saveEdit e g task w))) = Inr d'"
  proof -
    let ?now = "clock e (tick w)"
    let ?t' = "edit_updater g ?now task"
    have rows: "tasks (snd (saveEdit e g task w))
        = map (\<lambda>r. if data_id r = data_id task then apply_updates (all_fields ?t') r else r)
            (tasks w)"
      by (simp add: saveEdit_def timed_def on_table_def date_now_def update_def Let_def
          updateTask_map)
    have "getTask (data_id task) (tasks (snd (saveEdit e g task w))) = Some d'"
      using h(2) by (simp add: database_find_def split: option.splits)
    then have "d' \<in> set (tasks (snd (saveEdit e g task w)))" and "data_id d' = data_id task"
      using getTask_Some by blast+
    then obtain r where "d' = apply_updates (all_fields ?t') r"
      unfolding rows by auto
    then have "image_url d' = Val (JSON_stringify (e_imageUris g))"
      using edit_updater_images [OF h(1), of ?now task]
      by (simp add: all_fields_def stored_array)
    then show ?thesis by (rule imageUrl_of_array)
  qed
  show ?thesis using a b c by blast
qed


theorem image_references_roundtrip_witness:
  "c_imageUris photo_form \<noteq> []
   \<and> imageUrl (projr (fst (database_create ''u1'' 5000 (create_initializer photo_form 5000) [])))
       = ImageArray [JString (js ''file:///a.jpg''), JString (js ''b.png'')]
   \<and> e_imageUris photo_edit \<noteq> []
   \<and> imageUrl (projr (database_find ''task_a''
         (tasks (snd (saveEdit (http_env done) photo_edit (example_task pending)
            (example_world [example_task pending]))))))
       = ImageArray [JString (js ''file:///a.jpg''), JString (js ''b.png'')]"
proof -
  let ?create = "database_create ''u1'' 5000 (create_initializer photo_form 5000) []"
  let ?rows = "tasks (snd (saveEdit (http_env done) photo_edit (example_task pending)
            (example_world [example_task pending])))"
  have n1: "c_imageUris photo_form \<noteq> []" and n2: "e_imageUris photo_edit \<noteq> []"
    by (simp_all add: photo_form_def photo_edit_def)
  have "\<exists>C. fst ?create = Inr C"
    by (simp add: database_create_def createTask_def getTask_def Let_def)
  then obtain C R where c: "?create = (Inr C, R)"
    by (cases ?create) auto
  have d: "database_find (data_id C) R = Inr C"
    using database_create_result [OF c] by (simp add: database_find_def)
  have i: "data_id (example_task pending) = ''task_a''"
    by (simp add: example_task_def)
  have "\<exists>E. database_find ''task_a'' ?rows = Inr E"
    by (simp add: saveEdit_def timed_def on_table_def date_now_def update_def Let_def
        updateTask_map database_find_def getTask_def example_world_def i)
  then obtain E where e: "database_find (data_id (example_task pending)) ?rows = Inr E"
    using i by auto
  have "imageUrl C = ImageArray (map JString (c_imageUris photo_form))
      \<and> imageUrl E = ImageArray (map JString (e_imageUris photo_edit))"
    using n1 n2 c d e
      image_references_roundtrip [of "[]" "example_task pending" photo_form "''u1''" 5000
        "[]" C R C photo_edit "example_task pending" "http_env done"
        "example_world [example_task pending]" E]
    by blast
  then show ?thesis
    using n1 n2 c e i by (simp add: photo_form_def photo_edit_def)
qed

end
